theory Spec2Isabelle
  imports Complex_Main "HOL-Library.Log_Nat" "HOL-Library.Sublist"
begin

section \<open>Double-precision values\<close>

text \<open>
  The converter computes on C++ \<^verbatim>\<open>double\<close>, the IEEE 754 binary64 format. A double is
  either a finite number, one of the two infinities, or a NaN. A finite double is
  represented by the real number it denotes. The result of an arithmetic operation on
  finite doubles is the exact result rounded to the nearest binary64 number, ties going to
  the even significand (\<open>round64\<close>); a result beyond the largest finite double becomes an
  infinity, and results below the smallest normal number are rounded on the subnormal
  grid. The special values follow IEEE 754: a NaN operand gives NaN, every ordered
  comparison with a NaN is false, and the indeterminate forms (\<open>\<infinity> - \<infinity>\<close>, \<open>0 * \<infinity>\<close>,
  \<open>\<infinity> / \<infinity>\<close>, \<open>0 / 0\<close>) give NaN. The sign of zero is not represented; no operation of the
  converter tells \<open>-0\<close> from \<open>0\<close>. The type has a value \<open>Finite r\<close> for every real \<open>r\<close>,
  also for those that are not binary64 numbers; what is proved for all values holds for
  the doubles among them.
\<close>

datatype double = Finite real | PosInf | NegInf | NaN

text \<open>Rounding a real number to the nearest integer, ties to the even one.\<close>

definition round_even :: "real \<Rightarrow> int" where
  "round_even t =
     (let f = \<lfloor>t\<rfloor>; d = t - of_int f
      in if d < 1 / 2 then f else if 1 / 2 < d then f + 1 else if even f then f else f + 1)"

text \<open>
  The binary exponent of a positive real: the integer \<open>e\<close> with \<open>2\<^sup>e \<le> a < 2\<^sup>e\<^sup>+\<^sup>1\<close>,
  computed from the length in bits of the integer part of \<open>a\<close>, or of \<open>1 / a\<close> when
  \<open>a < 1\<close>.
\<close>

definition ilog2 :: "real \<Rightarrow> int" where
  "ilog2 a = (if 1 \<le> a then bitlen \<lfloor>a\<rfloor> - 1 else - bitlen (\<lceil>1 / a\<rceil> - 1))"

text \<open>
  The spacing of the binary64 numbers around \<open>r\<close>: a significand of 53 bits, and the
  exponent of the smallest normal number, \<open>-1022\<close>, for everything below it.
\<close>

definition ulp :: "real \<Rightarrow> real" where
  "ulp r = 2 powi (max (ilog2 \<bar>r\<bar>) (- 1022) - 52)"

definition round_real :: "real \<Rightarrow> real" where
  "round_real r = (if r = 0 then 0 else of_int (round_even (r / ulp r)) * ulp r)"

text \<open>
  Rounding to binary64. The largest finite double is \<open>2\<^sup>1\<^sup>0\<^sup>2\<^sup>4 - 2\<^sup>9\<^sup>7\<^sup>1\<close>; a real that rounds
  to \<open>2\<^sup>1\<^sup>0\<^sup>2\<^sup>4\<close> or beyond overflows to the infinity of its sign.
\<close>

definition round64 :: "real \<Rightarrow> double" where
  "round64 r =
     (let q = round_real r
      in if 2 ^ 1024 \<le> \<bar>q\<bar> then (if 0 < r then PosInf else NegInf) else Finite q)"

text \<open>
  A decimal literal of the source, such as \<^verbatim>\<open>273.15\<close>, denotes the double nearest to it.
  The literals with an integer value (\<^verbatim>\<open>32.0\<close>, \<^verbatim>\<open>1e6\<close>) are doubles themselves and
  are written \<open>Finite 32\<close>, \<open>Finite 1000000\<close>.
\<close>

definition lit :: "real \<Rightarrow> double" where
  "lit r = round64 r"

instantiation double :: uminus
begin

fun uminus_double :: "double \<Rightarrow> double" where
  "uminus_double (Finite a) = Finite (- a)"
| "uminus_double PosInf = NegInf"
| "uminus_double NegInf = PosInf"
| "uminus_double NaN = NaN"

instance ..

end

instantiation double :: plus
begin

fun plus_double :: "double \<Rightarrow> double \<Rightarrow> double" where
  "plus_double (Finite a) (Finite b) = round64 (a + b)"
| "plus_double NaN _ = NaN"
| "plus_double _ NaN = NaN"
| "plus_double PosInf NegInf = NaN"
| "plus_double NegInf PosInf = NaN"
| "plus_double PosInf _ = PosInf"
| "plus_double _ PosInf = PosInf"
| "plus_double NegInf _ = NegInf"
| "plus_double _ NegInf = NegInf"

instance ..

end

instantiation double :: minus
begin

fun minus_double :: "double \<Rightarrow> double \<Rightarrow> double" where
  "minus_double (Finite a) (Finite b) = round64 (a - b)"
| "minus_double NaN _ = NaN"
| "minus_double _ NaN = NaN"
| "minus_double PosInf PosInf = NaN"
| "minus_double NegInf NegInf = NaN"
| "minus_double PosInf _ = PosInf"
| "minus_double _ PosInf = NegInf"
| "minus_double NegInf _ = NegInf"
| "minus_double _ NegInf = PosInf"

instance ..

end

instantiation double :: times
begin

fun times_double :: "double \<Rightarrow> double \<Rightarrow> double" where
  "times_double (Finite a) (Finite b) = round64 (a * b)"
| "times_double NaN _ = NaN"
| "times_double _ NaN = NaN"
| "times_double PosInf (Finite b) = (if b = 0 then NaN else if 0 < b then PosInf else NegInf)"
| "times_double NegInf (Finite b) = (if b = 0 then NaN else if 0 < b then NegInf else PosInf)"
| "times_double (Finite a) PosInf = (if a = 0 then NaN else if 0 < a then PosInf else NegInf)"
| "times_double (Finite a) NegInf = (if a = 0 then NaN else if 0 < a then NegInf else PosInf)"
| "times_double PosInf PosInf = PosInf"
| "times_double NegInf NegInf = PosInf"
| "times_double PosInf NegInf = NegInf"
| "times_double NegInf PosInf = NegInf"

instance ..

end

instantiation double :: inverse
begin

fun divide_double :: "double \<Rightarrow> double \<Rightarrow> double" where
  "divide_double (Finite a) (Finite b) =
     (if b = 0 then (if a = 0 then NaN else if 0 < a then PosInf else NegInf)
      else round64 (a / b))"
| "divide_double NaN _ = NaN"
| "divide_double _ NaN = NaN"
| "divide_double (Finite a) _ = Finite 0"
| "divide_double PosInf (Finite b) = (if 0 \<le> b then PosInf else NegInf)"
| "divide_double NegInf (Finite b) = (if 0 \<le> b then NegInf else PosInf)"
| "divide_double _ _ = NaN"

fun inverse_double :: "double \<Rightarrow> double" where
  "inverse_double (Finite b) = (if b = 0 then PosInf else round64 (1 / b))"
| "inverse_double NaN = NaN"
| "inverse_double _ = Finite 0"

instance ..

end

instantiation double :: ord
begin

fun less_double :: "double \<Rightarrow> double \<Rightarrow> bool" where
  "less_double (Finite a) (Finite b) = (a < b)"
| "less_double NaN _ = False"
| "less_double _ NaN = False"
| "less_double _ NegInf = False"
| "less_double PosInf _ = False"
| "less_double _ _ = True"

fun less_eq_double :: "double \<Rightarrow> double \<Rightarrow> bool" where
  "less_eq_double (Finite a) (Finite b) = (a \<le> b)"
| "less_eq_double NaN _ = False"
| "less_eq_double _ NaN = False"
| "less_eq_double NegInf _ = True"
| "less_eq_double _ PosInf = True"
| "less_eq_double _ _ = False"

instance ..

end

text \<open>\<^verbatim>\<open>std::isnan\<close> and \<^verbatim>\<open>std::isinf\<close>.\<close>

fun isnan :: "double \<Rightarrow> bool" where
  "isnan NaN = True"
| "isnan _ = False"

fun isinf :: "double \<Rightarrow> bool" where
  "isinf PosInf = True"
| "isinf NegInf = True"
| "isinf _ = False"

section \<open>Strings\<close>

text \<open>
  \<^verbatim>\<open>std::string::find(str)\<close> returns the lowest position at which \<^verbatim>\<open>str\<close> occurs,
  or \<^verbatim>\<open>npos\<close> (here \<open>None\<close>) when it occurs nowhere. The comparison is by bytes, so it
  is case sensitive.
\<close>

fun starts_with :: "string \<Rightarrow> string \<Rightarrow> bool" where
  "starts_with _ [] = True"
| "starts_with [] (p # ps) = False"
| "starts_with (c # cs) (p # ps) = (c = p \<and> starts_with cs ps)"

fun string_find :: "string \<Rightarrow> string \<Rightarrow> nat option" where
  "string_find [] p = (if p = [] then Some 0 else None)"
| "string_find (c # cs) p =
     (if starts_with (c # cs) p then Some 0 else map_option Suc (string_find cs p))"

text \<open>The test \<^verbatim>\<open>s.find(p) != std::string::npos\<close>.\<close>

fun found :: "nat option \<Rightarrow> bool" where
  "found None = False"
| "found (Some _) = True"

section \<open>The converter\<close>

text \<open>
  \<^verbatim>\<open>convert\<close> throws \<^verbatim>\<open>std::invalid_argument\<close> only; the exception carries its
  \<^verbatim>\<open>what()\<close> message, which is all that tells one failure from another.
\<close>

datatype error = invalid_argument string

record UnitConverter =
  conversionFunctions :: "string \<rightharpoonup> (double \<Rightarrow> double)"

text \<open>
  The four registration functions (\<^verbatim>\<open>unit_converter.cpp\<close>, lines 11 to 40). An
  assignment \<^verbatim>\<open>conversionFunctions[name] = f\<close> inserts the entry or overwrites it, which
  is the update of the map.
\<close>

definition registerTemperatureConversions :: "UnitConverter \<Rightarrow> UnitConverter" where
  "registerTemperatureConversions this =
     this\<lparr>conversionFunctions := (conversionFunctions this)
       (''CelsiusToFahrenheit'' \<mapsto> (\<lambda>c. (c * Finite 9 / Finite 5) + Finite 32),
        ''FahrenheitToCelsius'' \<mapsto> (\<lambda>f. (f - Finite 32) * Finite 5 / Finite 9),
        ''CelsiusToKelvin'' \<mapsto> (\<lambda>c. c + lit 273.15),
        ''KelvinToCelsius'' \<mapsto> (\<lambda>k. k - lit 273.15))\<rparr>"

definition registerDistanceConversions :: "UnitConverter \<Rightarrow> UnitConverter" where
  "registerDistanceConversions this =
     this\<lparr>conversionFunctions := (conversionFunctions this)
       (''KilometersToMiles'' \<mapsto> (\<lambda>km. km * lit 0.621371),
        ''MilesToKilometers'' \<mapsto> (\<lambda>miles. miles / lit 0.621371),
        ''MetersToFeet'' \<mapsto> (\<lambda>m. m * lit 3.28084),
        ''FeetToMeters'' \<mapsto> (\<lambda>ft. ft / lit 3.28084))\<rparr>"

definition registerWeightConversions :: "UnitConverter \<Rightarrow> UnitConverter" where
  "registerWeightConversions this =
     this\<lparr>conversionFunctions := (conversionFunctions this)
       (''KilogramsToPounds'' \<mapsto> (\<lambda>kg. kg * lit 2.20462),
        ''PoundsToKilograms'' \<mapsto> (\<lambda>lb. lb / lit 2.20462),
        ''GramsToOunces'' \<mapsto> (\<lambda>g. g * lit 0.035274),
        ''OuncesToGrams'' \<mapsto> (\<lambda>oz. oz / lit 0.035274))\<rparr>"

definition registerVolumeConversions :: "UnitConverter \<Rightarrow> UnitConverter" where
  "registerVolumeConversions this =
     this\<lparr>conversionFunctions := (conversionFunctions this)
       (''LitersToGallons'' \<mapsto> (\<lambda>l. l * lit 0.264172),
        ''GallonsToLiters'' \<mapsto> (\<lambda>gal. gal / lit 0.264172),
        ''MillilitersToFluidOunces'' \<mapsto> (\<lambda>ml. ml * lit 0.033814),
        ''FluidOuncesToMilliliters'' \<mapsto> (\<lambda>fl_oz. fl_oz / lit 0.033814))\<rparr>"

definition registerConversionFunctions :: "UnitConverter \<Rightarrow> UnitConverter" where
  "registerConversionFunctions this =
     registerVolumeConversions (registerWeightConversions
       (registerDistanceConversions (registerTemperatureConversions this)))"

text \<open>The constructor: the map member starts empty and is filled by the registration.\<close>

definition UnitConverter_new :: UnitConverter where
  "UnitConverter_new = registerConversionFunctions \<lparr>conversionFunctions = Map.empty\<rparr>"

text \<open>
  The guards of \<^verbatim>\<open>convert\<close> (\<^verbatim>\<open>unit_converter.cpp\<close>, lines 54 to 95), one definition
  for each condition of the source: the substring tests that select a category (lines 56,
  68, 74 and 80), the Celsius value \<^verbatim>\<open>cVal\<close> that the temperature guard compares with
  absolute zero (lines 58 to 61), and the clamp (lines 86 and 87).
\<close>

definition temperature_name :: "string \<Rightarrow> bool" where
  "temperature_name conversionType \<longleftrightarrow>
     found (string_find conversionType ''Celsius'') \<or>
     found (string_find conversionType ''Fahrenheit'') \<or>
     found (string_find conversionType ''Kelvin'')"

definition cVal :: "string \<Rightarrow> double \<Rightarrow> double" where
  "cVal conversionType value =
     (if found (string_find conversionType ''Fahrenheit'')
      then (value - Finite 32) * Finite 5 / Finite 9
      else (if found (string_find conversionType ''Kelvin'')
            then value - lit 273.15 else value))"

definition distance_name :: "string \<Rightarrow> bool" where
  "distance_name conversionType \<longleftrightarrow>
     found (string_find conversionType ''Kilometers'') \<or>
     found (string_find conversionType ''Miles'') \<or>
     found (string_find conversionType ''Meters'') \<or>
     found (string_find conversionType ''Feet'')"

definition weight_name :: "string \<Rightarrow> bool" where
  "weight_name conversionType \<longleftrightarrow>
     found (string_find conversionType ''Kilograms'') \<or>
     found (string_find conversionType ''Pounds'') \<or>
     found (string_find conversionType ''Grams'') \<or>
     found (string_find conversionType ''Ounces'')"

definition volume_name :: "string \<Rightarrow> bool" where
  "volume_name conversionType \<longleftrightarrow>
     found (string_find conversionType ''Liters'') \<or>
     found (string_find conversionType ''Gallons'') \<or>
     found (string_find conversionType ''Milliliters'') \<or>
     found (string_find conversionType ''FluidOunces'')"

definition clamp :: "double \<Rightarrow> double" where
  "clamp value =
     (if value > Finite 1000000 then Finite 1000000
      else if value < Finite (- 1000000) then Finite (- 1000000)
      else value)"

text \<open>
  \<^verbatim>\<open>convert\<close> is a \<^verbatim>\<open>const\<close> member: it reads the converter and returns a double or
  throws. The guards run in the order of the source and the first one that throws ends
  the call; the lookup is \<^verbatim>\<open>std::map::find\<close>, which never inserts.
\<close>

definition convert :: "UnitConverter \<Rightarrow> string \<Rightarrow> double \<Rightarrow> error + double" where
  "convert this conversionType value =
     (if temperature_name conversionType \<and> cVal conversionType value < - lit 273.15
      then Inl (invalid_argument ''Temperature value below absolute zero is not valid.'')
      else if distance_name conversionType \<and> value < Finite 0
      then Inl (invalid_argument ''Negative distance values are not valid.'')
      else if weight_name conversionType \<and> value < Finite 0
      then Inl (invalid_argument ''Negative weight values are not valid.'')
      else if volume_name conversionType \<and> value < Finite 0
      then Inl (invalid_argument ''Negative volume values are not valid.'')
      else (let value = clamp value in
            case conversionFunctions this conversionType of
              Some f \<Rightarrow> Inr (f value)
            | None \<Rightarrow> Inl (invalid_argument (''Invalid conversion type: '' @ conversionType))))"

text \<open>
  A caller that holds a converter and calls \<^verbatim>\<open>convert\<close> on it: the call yields the
  outcome and leaves the object as it was, since the member function is \<^verbatim>\<open>const\<close> and
  the map is not \<^verbatim>\<open>mutable\<close>. \<open>run_calls\<close> makes a sequence of calls on one object, as the
  menu loop of \<^verbatim>\<open>main\<close> does; a call that throws is caught and the loop goes on.
\<close>

definition convert_call ::
    "UnitConverter \<Rightarrow> string \<times> double \<Rightarrow> (error + double) \<times> UnitConverter" where
  "convert_call this call = (convert this (fst call) (snd call), this)"

fun run_calls ::
    "UnitConverter \<Rightarrow> (string \<times> double) list \<Rightarrow> (error + double) list \<times> UnitConverter" where
  "run_calls this [] = ([], this)"
| "run_calls this (call # calls) =
     (case convert_call this call of
        (r, this') \<Rightarrow> (case run_calls this' calls of (rs, this'') \<Rightarrow> (r # rs, this'')))"

text \<open>The names the test suite iterates over (\<^verbatim>\<open>allConversions\<close> in the fuzz test).\<close>

definition allConversions :: "string list" where
  "allConversions =
     [''CelsiusToFahrenheit'', ''FahrenheitToCelsius'', ''CelsiusToKelvin'', ''KelvinToCelsius'',
      ''KilometersToMiles'', ''MilesToKilometers'', ''MetersToFeet'', ''FeetToMeters'',
      ''KilogramsToPounds'', ''PoundsToKilograms'', ''GramsToOunces'', ''OuncesToGrams'',
      ''LitersToGallons'', ''GallonsToLiters'', ''MillilitersToFluidOunces'',
      ''FluidOuncesToMilliliters'']"

section \<open>The vocabulary of the specification\<close>

text \<open>
  The specification names five kinds of failure. In the program each is the exception
  \<^verbatim>\<open>std::invalid_argument\<close> with the message below.
\<close>

definition BelowAbsoluteZero :: error where
  "BelowAbsoluteZero = invalid_argument ''Temperature value below absolute zero is not valid.''"

definition NegativeDistance :: error where
  "NegativeDistance = invalid_argument ''Negative distance values are not valid.''"

definition NegativeWeight :: error where
  "NegativeWeight = invalid_argument ''Negative weight values are not valid.''"

definition NegativeVolume :: error where
  "NegativeVolume = invalid_argument ''Negative volume values are not valid.''"

definition UnknownConversion :: "string \<Rightarrow> error" where
  "UnknownConversion name = invalid_argument (''Invalid conversion type: '' @ name)"

text \<open>
  A value passes the validation of a name when none of the four range guards of
  \<^verbatim>\<open>convert\<close> throws on it; it is in range when, moreover, it lies within the clamp
  bounds.
\<close>

definition passes_validation :: "string \<Rightarrow> double \<Rightarrow> bool" where
  "passes_validation name value \<longleftrightarrow>
     \<not> (temperature_name name \<and> cVal name value < - lit 273.15) \<and>
     \<not> (distance_name name \<and> value < Finite 0) \<and>
     \<not> (weight_name name \<and> value < Finite 0) \<and>
     \<not> (volume_name name \<and> value < Finite 0)"

definition in_range :: "string \<Rightarrow> double \<Rightarrow> bool" where
  "in_range name value \<longleftrightarrow>
     passes_validation name value \<and> Finite (- 1000000) \<le> value \<and> value \<le> Finite 1000000"

text \<open>
  The specification's normalisation of a temperature to Celsius, in its own words:
  ``if name contains Fahrenheit, \<open>(value - 32) * 5 / 9\<close>; else if it contains Kelvin,
  \<open>value - 273.15\<close>; else value unchanged''. ``Contains'' is \<^const>\<open>sublist\<close>.
\<close>

definition normalized :: "string \<Rightarrow> double \<Rightarrow> double" where
  "normalized name value =
     (if sublist ''Fahrenheit'' name then (value - Finite 32) * Finite 5 / Finite 9
      else if sublist ''Kelvin'' name then value - lit 273.15
      else value)"

text \<open>The table of the construction contract, one list for each category.\<close>

definition spec_temperature :: "(string \<times> (double \<Rightarrow> double)) list" where
  "spec_temperature =
     [(''CelsiusToFahrenheit'', \<lambda>c. c * Finite 9 / Finite 5 + Finite 32),
      (''FahrenheitToCelsius'', \<lambda>f. (f - Finite 32) * Finite 5 / Finite 9),
      (''CelsiusToKelvin'', \<lambda>c. c + lit 273.15),
      (''KelvinToCelsius'', \<lambda>k. k - lit 273.15)]"

definition spec_distance :: "(string \<times> (double \<Rightarrow> double)) list" where
  "spec_distance =
     [(''KilometersToMiles'', \<lambda>km. km * lit 0.621371),
      (''MilesToKilometers'', \<lambda>mi. mi / lit 0.621371),
      (''MetersToFeet'', \<lambda>m. m * lit 3.28084),
      (''FeetToMeters'', \<lambda>ft. ft / lit 3.28084)]"

definition spec_weight :: "(string \<times> (double \<Rightarrow> double)) list" where
  "spec_weight =
     [(''KilogramsToPounds'', \<lambda>kg. kg * lit 2.20462),
      (''PoundsToKilograms'', \<lambda>lb. lb / lit 2.20462),
      (''GramsToOunces'', \<lambda>g. g * lit 0.035274),
      (''OuncesToGrams'', \<lambda>oz. oz / lit 0.035274)]"

definition spec_volume :: "(string \<times> (double \<Rightarrow> double)) list" where
  "spec_volume =
     [(''LitersToGallons'', \<lambda>l. l * lit 0.264172),
      (''GallonsToLiters'', \<lambda>gal. gal / lit 0.264172),
      (''MillilitersToFluidOunces'', \<lambda>ml. ml * lit 0.033814),
      (''FluidOuncesToMilliliters'', \<lambda>floz. floz / lit 0.033814)]"

definition spec_table :: "(string \<times> (double \<Rightarrow> double)) list" where
  "spec_table = spec_temperature @ spec_distance @ spec_weight @ spec_volume"


section \<open>Rounding\<close>

text \<open>
  The exponent is the one of the binade that holds the number; the rounded value is
  within half a unit in the last place; integers below \<open>2\<^sup>5\<^sup>3\<close> are doubles; rounding is
  odd and leaves its own results alone.
\<close>

lemma ilog2_bounds:
  assumes "0 < a"
  shows "2 powi (ilog2 a) \<le> a \<and> a < 2 powi (ilog2 a + 1)"
proof (cases "1 \<le> a")
  case True
  define m where "m = \<lfloor>a\<rfloor>"
  have m: "1 \<le> m" using True by (simp add: m_def le_floor_iff)
  then have "0 < m" by simp
  from bitlen_bounds [OF this]
  have b: "2 ^ nat (bitlen m - 1) \<le> m" "m < 2 ^ nat (bitlen m)" by simp_all
  have b1: "1 \<le> bitlen m" using \<open>0 < m\<close> by (simp add: bitlen_alt_def)
  have "real_of_int (2 ^ nat (bitlen m - 1)) \<le> of_int m" using b(1) by (simp only: of_int_le_iff)
  also have "\<dots> \<le> a" by (simp add: m_def)
  finally have lo: "2 ^ nat (bitlen m - 1) \<le> a" by simp
  have "m + 1 \<le> 2 ^ nat (bitlen m)" using b(2) by simp
  then have "real_of_int (m + 1) \<le> of_int (2 ^ nat (bitlen m))" by (simp only: of_int_le_iff)
  moreover have "a < of_int (m + 1)" by (simp add: m_def)
  ultimately have hi: "a < 2 ^ nat (bitlen m)" by simp
  have e: "ilog2 a = bitlen m - 1" using True by (simp add: ilog2_def m_def)
  show ?thesis using lo hi b1 by (simp add: e power_int_def)
next
  case False
  define m where "m = \<lceil>1 / a\<rceil>"
  define k where "k = bitlen (m - 1)"
  from False assms have t: "1 < 1 / a" by simp
  then have m2: "2 \<le> m" unfolding m_def by (simp add: le_ceiling_iff) 
  then have "0 < m - 1" by simp
  from bitlen_bounds [OF this]
  have b: "2 ^ nat (k - 1) \<le> m - 1" "m - 1 < 2 ^ nat k" by (simp_all add: k_def)
  have k1: "1 \<le> k" using \<open>0 < m - 1\<close> by (simp add: k_def bitlen_alt_def)
  have "m \<le> 2 ^ nat k" using b(2) by simp
  then have "real_of_int m \<le> of_int (2 ^ nat k)" by (simp only: of_int_le_iff)
  then have "real_of_int m \<le> 2 ^ nat k" by (simp only: of_int_power of_int_numeral)
  moreover have "1 / a \<le> of_int m" by (simp add: m_def)
  ultimately have "1 / a \<le> 2 ^ nat k" by (rule order_trans [rotated])
  then have lo: "1 / 2 ^ nat k \<le> a" using assms by (simp add: field_simps)
  have "real_of_int (2 ^ nat (k - 1)) \<le> of_int (m - 1)" using b(1) by (simp only: of_int_le_iff)
  then have "2 ^ nat (k - 1) \<le> real_of_int (m - 1)" by (simp only: of_int_power of_int_numeral)
  moreover have "of_int (m - 1) < 1 / a" unfolding m_def by linarith
  ultimately have "2 ^ nat (k - 1) < 1 / a" by (rule le_less_trans)
  then have hi: "a < 1 / 2 ^ nat (k - 1)" using assms by (simp add: field_simps)
  have e: "ilog2 a = - k" using False by (simp add: ilog2_def m_def k_def)
  have p1: "(2::real) powi (- k) = 1 / 2 ^ nat k" using k1 by (simp add: power_int_def field_simps)
  have p2: "(2::real) powi (1 - k) = 1 / 2 ^ nat (k - 1)"
    using k1 by (auto simp add: power_int_def field_simps nat_diff_distrib)
  show ?thesis using lo hi by (simp add: e p1 p2)
qed

lemma ilog2_unique:
  assumes "0 < a" and "2 powi e \<le> a" and "a < 2 powi (e + 1)"
  shows "ilog2 a = e"
proof -
  from ilog2_bounds [OF assms(1)]
  have b: "2 powi (ilog2 a) \<le> a" "a < 2 powi (ilog2 a + 1)" by simp_all
  have "ilog2 a < e + 1"
  proof (rule ccontr)
    assume "\<not> ilog2 a < e + 1"
    then have "(2::real) powi (e + 1) \<le> 2 powi (ilog2 a)"
      by (intro power_int_increasing) simp_all
    with b(1) assms(3) show False by simp
  qed
  moreover have "e < ilog2 a + 1"
  proof (rule ccontr)
    assume "\<not> e < ilog2 a + 1"
    then have "(2::real) powi (ilog2 a + 1) \<le> 2 powi e"
      by (intro power_int_increasing) simp_all
    with b(2) assms(2) show False by simp
  qed
  ultimately show ?thesis by simp
qed

lemma round_even_error: "\<bar>of_int (round_even t) - t\<bar> \<le> 1 / 2"
  unfolding round_even_def Let_def by (auto simp add: abs_le_iff)

lemma round_even_of_int [simp]: "round_even (of_int k) = k"
  by (simp add: round_even_def)

lemma ulp_pos: "0 < ulp r"
  by (simp add: ulp_def)

lemma ulp_le:
  assumes "r \<noteq> 0" and "\<bar>r\<bar> \<le> 2 powi k" and "- 1022 \<le> k"
  shows "ulp r \<le> 2 powi (k - 52)"
proof -
  have "ilog2 \<bar>r\<bar> \<le> k"
  proof (rule ccontr)
    assume "\<not> ilog2 \<bar>r\<bar> \<le> k"
    then have "(2::real) powi (k + 1) \<le> 2 powi (ilog2 \<bar>r\<bar>)"
      by (intro power_int_increasing) simp_all
    moreover have "2 powi (ilog2 \<bar>r\<bar>) \<le> \<bar>r\<bar>"
      using ilog2_bounds [of "\<bar>r\<bar>"] assms(1) by simp
    moreover have "(2::real) powi k < 2 powi (k + 1)"
      by (intro power_int_strict_increasing) simp_all
    ultimately show False using assms(2) by linarith
  qed
  then have "max (ilog2 \<bar>r\<bar>) (- 1022) - 52 \<le> k - 52" using assms(3) by simp
  then show ?thesis unfolding ulp_def by (intro power_int_increasing) simp_all
qed

lemma round_real_error: "\<bar>round_real r - r\<bar> \<le> ulp r / 2"
proof (cases "r = 0")
  case True
  then show ?thesis using ulp_pos [of r] by (simp add: round_real_def)
next
  case False
  have "of_int (round_even (r / ulp r)) * ulp r - r =
      (of_int (round_even (r / ulp r)) - r / ulp r) * ulp r"
    using ulp_pos [of r] by (simp add: field_simps)
  then have "\<bar>of_int (round_even (r / ulp r)) * ulp r - r\<bar> =
      \<bar>of_int (round_even (r / ulp r)) - r / ulp r\<bar> * ulp r"
    using ulp_pos [of r] by (simp add: abs_mult)
  also have "\<dots> \<le> 1 / 2 * ulp r"
    using round_even_error [of "r / ulp r"] ulp_pos [of r]
    by (intro mult_right_mono) simp_all
  finally show ?thesis using False by (simp add: round_real_def)
qed

lemma ilog2_le:
  assumes "0 < a" and "a < 2 powi (k + 1)"
  shows "ilog2 a \<le> k"
proof (rule ccontr)
  assume "\<not> ilog2 a \<le> k"
  then have "(2::real) powi (k + 1) \<le> 2 powi (ilog2 a)"
    by (intro power_int_increasing) simp_all
  moreover have "2 powi (ilog2 a) \<le> a"
    using ilog2_bounds [OF assms(1)] by simp
  ultimately show False using assms(2) by linarith
qed

lemma ilog2_ge:
  assumes "0 < a" and "2 powi k \<le> a"
  shows "k \<le> ilog2 a"
proof (rule ccontr)
  assume "\<not> k \<le> ilog2 a"
  then have "(2::real) powi (ilog2 a + 1) \<le> 2 powi k"
    by (intro power_int_increasing) simp_all
  moreover have "a < 2 powi (ilog2 a + 1)"
    using ilog2_bounds [OF assms(1)] by simp
  ultimately show False using assms(2) by linarith
qed

lemma ulp_eq:
  assumes "2 powi e \<le> \<bar>r\<bar>" and "\<bar>r\<bar> < 2 powi (e + 1)" and "- 1022 \<le> e"
  shows "ulp r = 2 powi (e - 52)"
proof -
  have "0 < \<bar>r\<bar>" using assms(1) zero_less_power_int [of "2::real" e] by linarith
  then have "ilog2 \<bar>r\<bar> = e" using assms(1,2) by (rule ilog2_unique)
  then show ?thesis using assms(3) by (simp add: ulp_def)
qed

lemma round_real_near:
  assumes "\<bar>r\<bar> \<le> 33554432"
  shows "\<bar>round_real r - r\<bar> \<le> 1 / 268435456"
proof (cases "r = 0")
  case True
  then show ?thesis by (simp add: round_real_def)
next
  case False
  have "ulp r \<le> 2 powi (25 - 52)"
    using False assms by (intro ulp_le) simp_all
  then have "ulp r \<le> 1 / 134217728" by (simp add: power_int_minus_divide)
  with round_real_error [of r] show ?thesis by linarith
qed

lemma round64_near:
  assumes "\<bar>r\<bar> \<le> 33554432"
  shows "round64 r = Finite (round_real r)"
proof -
  have "\<bar>round_real r\<bar> \<le> 33554432 + 1 / 268435456"
    using round_real_near [OF assms] assms by linarith
  also have "\<dots> < 2 ^ 1024" by simp
  finally show ?thesis by (simp add: round64_def)
qed

lemma round_real_of_int:
  assumes "\<bar>k\<bar> < 2 ^ 53"
  shows "round_real (of_int k) = of_int k"
proof (cases "k = 0")
  case True
  then show ?thesis by (simp add: round_real_def)
next
  case False
  define e where "e = ilog2 \<bar>real_of_int k\<bar>"
  have pos: "0 < \<bar>real_of_int k\<bar>" using False by simp
  have "1 \<le> \<bar>k\<bar>" using False by simp
  then have "1 \<le> real_of_int \<bar>k\<bar>" by (simp only: of_int_1_le_iff)
  then have "(2::real) powi 0 \<le> \<bar>real_of_int k\<bar>" by simp
  with pos have e0: "0 \<le> e" unfolding e_def by (rule ilog2_ge)
  have "real_of_int \<bar>k\<bar> < 2 ^ 53" using assms by (simp only: of_int_less_numeral_power_cancel_iff)
  then have "\<bar>real_of_int k\<bar> < 2 powi (52 + 1)" by simp
  with pos have e52: "e \<le> 52" unfolding e_def by (rule ilog2_le)
  have u: "ulp (of_int k) = 1 / 2 ^ nat (52 - e)"
    using e0 e52 by (simp add: ulp_def e_def [symmetric] power_int_def inverse_eq_divide power_one_over)
  have "of_int k / ulp (of_int k) = real_of_int (k * 2 ^ nat (52 - e))"
    by (simp add: u)
  then have "round_even (of_int k / ulp (of_int k)) = k * 2 ^ nat (52 - e)"
    by (simp only: round_even_of_int)
  then show ?thesis using False by (simp add: round_real_def u)
qed

lemma round64_of_int:
  assumes "\<bar>k\<bar> < 2 ^ 53"
  shows "round64 (of_int k) = Finite (of_int k)"
proof -
  have "real_of_int \<bar>k\<bar> < 2 ^ 53" using assms by (simp only: of_int_less_numeral_power_cancel_iff)
  then have "\<bar>real_of_int k\<bar> < 2 ^ 1024" by simp
  then show ?thesis by (simp add: round64_def round_real_of_int [OF assms])
qed

lemma round_even_minus: "round_even (- t) = - round_even t"
  unfolding round_even_def Let_def
  by (auto simp add: floor_minus ceiling_altdef)

lemma ulp_minus [simp]: "ulp (- r) = ulp r"
  by (simp add: ulp_def)

lemma round_real_minus: "round_real (- r) = - round_real r"
  by (simp add: round_real_def round_even_minus)

lemma round_real_idem: "round_real (round_real r) = round_real r"
proof (cases "r = 0")
  case True
  then show ?thesis by (simp add: round_real_def)
next
  case False
  define e where "e = max (ilog2 \<bar>r\<bar>) (- 1022)"
  define u :: real where "u = 2 powi (e - 52)"
  define n where "n = round_even (r / u)"
  define q where "q = of_int n * u"
  have u: "ulp r = u" by (simp add: ulp_def u_def e_def)
  have upos: "0 < u" by (simp add: u_def)
  have q: "round_real r = q" using False by (simp add: round_real_def u q_def n_def)
  have rpos: "0 < \<bar>r\<bar>" using False by simp
  have p53: "2 powi (e + 1) = 2 ^ 53 * u"
    using power_int_add [of "2::real" 53 "e - 52"] by (simp add: u_def add.commute)
  have p52: "2 powi e = 2 ^ 52 * u"
    using power_int_add [of "2::real" 52 "e - 52"] by (simp add: u_def)
  have "\<bar>r\<bar> < 2 powi (ilog2 \<bar>r\<bar> + 1)" using ilog2_bounds [OF rpos] by simp
  also have "\<dots> \<le> 2 powi (e + 1)" by (intro power_int_increasing) (simp_all add: e_def)
  finally have "\<bar>r\<bar> < 2 ^ 53 * u" by (simp add: p53)
  then have t53: "\<bar>r / u\<bar> < 2 ^ 53" using upos by (simp add: field_simps)
  have err: "\<bar>of_int n - r / u\<bar> \<le> 1 / 2" unfolding n_def by (rule round_even_error)
  have "\<bar>real_of_int n\<bar> < 2 ^ 53 + 1" using t53 err by linarith
  then have "real_of_int \<bar>n\<bar> < real_of_int (2 ^ 53 + 1)" by simp
  then have "\<bar>n\<bar> < 2 ^ 53 + 1" by (simp only: of_int_less_iff)
  then have up: "\<bar>n\<bar> \<le> 2 ^ 53" by simp
  show ?thesis
  proof (cases "n = 0")
    case True
    then have "q = 0" by (simp add: q_def)
    then have "round_real q = q" by (simp add: round_real_def)
    then show ?thesis by (simp only: q)
  next
    case n0: False
    then have q0: "q \<noteq> 0" using upos by (simp add: q_def)
    have absq: "\<bar>q\<bar> = of_int \<bar>n\<bar> * u" using upos by (simp add: q_def abs_mult)
    show ?thesis
    proof (cases "\<bar>n\<bar> = 2 ^ 53")
      case True
      then have aq: "\<bar>q\<bar> = 2 powi (e + 1)" by (simp add: absq p53)
      have "(2::real) powi (e + 1) < 2 powi (e + 1 + 1)"
        by (intro power_int_strict_increasing) simp_all
      then have "ulp q = 2 powi (e + 1 - 52)"
        by (intro ulp_eq) (simp_all add: aq e_def)
      also have "\<dots> = 2 * u"
        using power_int_add [of "2::real" 1 "e - 52"] by (simp add: u_def)
      finally have uq: "ulp q = 2 * u" .
      from True have "n = 2 ^ 53 \<or> n = - (2 ^ 53)" by linarith
      then have "even n" by auto
      then have "real_of_int (n div 2) = real_of_int n / 2" by (simp add: real_of_int_div)
      then have "q / ulp q = real_of_int (n div 2)" unfolding uq using upos by (simp add: q_def)
      then have "round_even (q / ulp q) = n div 2" by (simp only: round_even_of_int)
      then have "round_real q = of_int (n div 2) * (2 * u)" using q0 by (simp add: round_real_def uq)
      also have "\<dots> = q" using \<open>real_of_int (n div 2) = real_of_int n / 2\<close> by (simp add: q_def)
      finally show ?thesis by (simp only: q)
    next
      case False
      with up have lt: "\<bar>n\<bar> < 2 ^ 53" by simp
      then have "real_of_int \<bar>n\<bar> < 2 ^ 53" by (simp only: of_int_less_numeral_power_cancel_iff)
      then have "\<bar>q\<bar> < 2 powi (e + 1)" using upos by (simp add: absq p53)
      moreover have qpos: "0 < \<bar>q\<bar>" using q0 by simp
      ultimately have le: "ilog2 \<bar>q\<bar> \<le> e" by (intro ilog2_le)
      have "max (ilog2 \<bar>q\<bar>) (- 1022) = e"
      proof (cases "- 1022 < e")
        case True
        then have "e = ilog2 \<bar>r\<bar>" by (simp add: e_def max_def split: if_splits)
        then have "2 powi e \<le> \<bar>r\<bar>" using ilog2_bounds [OF rpos] by simp
        then have "2 ^ 52 \<le> \<bar>r / u\<bar>" using upos by (simp add: p52 field_simps)
        then have "2 ^ 52 - 1 < \<bar>real_of_int n\<bar>" using err by linarith
        then have "real_of_int (2 ^ 52 - 1) < real_of_int \<bar>n\<bar>" by simp
        then have "2 ^ 52 - 1 < \<bar>n\<bar>" by (simp only: of_int_less_iff)
        then have "2 ^ 52 \<le> \<bar>n\<bar>" by simp
        then have "real_of_int (2 ^ 52) \<le> real_of_int \<bar>n\<bar>" by (simp only: of_int_le_iff)
        then have "2 powi e \<le> \<bar>q\<bar>" using upos by (simp add: absq p52)
        with qpos have "e \<le> ilog2 \<bar>q\<bar>" by (intro ilog2_ge)
        with le True show ?thesis by simp
      next
        case False
        then have "e = - 1022" by (simp add: e_def max_def split: if_splits)
        with le show ?thesis by simp
      qed
      then have uq: "ulp q = u" by (simp add: ulp_def u_def)
      have "q / ulp q = real_of_int n" unfolding uq using upos by (simp add: q_def)
      then have "round_even (q / ulp q) = n" by (simp only: round_even_of_int)
      then have "round_real q = of_int n * u" using q0 by (simp add: round_real_def uq)
      then have "round_real q = q" by (simp add: q_def)
      then show ?thesis by (simp only: q)
    qed
  qed
qed

lemma round64_idem:
  assumes "round64 r = Finite q"
  shows "round64 q = Finite q" and "round64 (- q) = Finite (- q)"
proof -
  from assms have q: "q = round_real r" and b: "\<bar>round_real r\<bar> < 2 ^ 1024"
    by (simp_all add: round64_def Let_def split: if_splits)
  show "round64 q = Finite q"
    using b by (simp add: round64_def q round_real_idem)
  show "round64 (- q) = Finite (- q)"
    using b by (simp add: round64_def q round_real_minus round_real_idem)
qed

section \<open>Substring search\<close>

lemma starts_with_prefix: "starts_with s p \<longleftrightarrow> prefix p s"
  by (induction s p rule: starts_with.induct) auto

lemma found_map_option [simp]: "found (map_option g r) = found r"
  by (cases r) simp_all

lemma found_string_find: "found (string_find s p) \<longleftrightarrow> sublist p s"
proof (induction s)
  case Nil
  show ?case by simp
next
  case (Cons c cs)
  show ?case
  proof (cases "starts_with (c # cs) p")
    case True
    then show ?thesis by (simp add: sublist_Cons_right starts_with_prefix)
  next
    case False
    then show ?thesis using Cons.IH by (simp add: sublist_Cons_right starts_with_prefix)
  qed
qed

section \<open>The registry after construction\<close>

lemmas register_defs =
  UnitConverter_new_def registerConversionFunctions_def registerTemperatureConversions_def
  registerDistanceConversions_def registerWeightConversions_def registerVolumeConversions_def

lemma registry_lookup:
  "conversionFunctions UnitConverter_new n =
    (if n = ''FluidOuncesToMilliliters'' then Some (\<lambda>fl_oz. fl_oz / lit 0.033814)
     else if n = ''MillilitersToFluidOunces'' then Some (\<lambda>ml. ml * lit 0.033814)
     else if n = ''GallonsToLiters'' then Some (\<lambda>gal. gal / lit 0.264172)
     else if n = ''LitersToGallons'' then Some (\<lambda>l. l * lit 0.264172)
     else if n = ''OuncesToGrams'' then Some (\<lambda>oz. oz / lit 0.035274)
     else if n = ''GramsToOunces'' then Some (\<lambda>g. g * lit 0.035274)
     else if n = ''PoundsToKilograms'' then Some (\<lambda>lb. lb / lit 2.20462)
     else if n = ''KilogramsToPounds'' then Some (\<lambda>kg. kg * lit 2.20462)
     else if n = ''FeetToMeters'' then Some (\<lambda>ft. ft / lit 3.28084)
     else if n = ''MetersToFeet'' then Some (\<lambda>m. m * lit 3.28084)
     else if n = ''MilesToKilometers'' then Some (\<lambda>miles. miles / lit 0.621371)
     else if n = ''KilometersToMiles'' then Some (\<lambda>km. km * lit 0.621371)
     else if n = ''KelvinToCelsius'' then Some (\<lambda>k. k - lit 273.15)
     else if n = ''CelsiusToKelvin'' then Some (\<lambda>c. c + lit 273.15)
     else if n = ''FahrenheitToCelsius'' then Some (\<lambda>f. (f - Finite 32) * Finite 5 / Finite 9)
     else if n = ''CelsiusToFahrenheit'' then Some (\<lambda>c. c * Finite 9 / Finite 5 + Finite 32)
     else None)"
  unfolding register_defs
  by (simp only: UnitConverter.simps fun_upd_apply map_upds_def split: if_splits)

lemma registry_dom:
  "dom (conversionFunctions UnitConverter_new) =
    {''FluidOuncesToMilliliters'', ''MillilitersToFluidOunces'', ''GallonsToLiters'',
     ''LitersToGallons'', ''OuncesToGrams'', ''GramsToOunces'', ''PoundsToKilograms'',
     ''KilogramsToPounds'', ''FeetToMeters'', ''MetersToFeet'', ''MilesToKilometers'',
     ''KilometersToMiles'', ''KelvinToCelsius'', ''CelsiusToKelvin'', ''FahrenheitToCelsius'',
     ''CelsiusToFahrenheit''}"
  by (simp add: register_defs)

lemma registry_dom_allConversions:
  "dom (conversionFunctions UnitConverter_new) = set allConversions"
  unfolding registry_dom allConversions_def by auto

lemma distinct_allConversions: "distinct allConversions"
  by (simp add: allConversions_def)

lemma registry_card: "card (dom (conversionFunctions UnitConverter_new)) = 16"
  unfolding registry_dom_allConversions
  by (simp add: distinct_card [OF distinct_allConversions]) (simp add: allConversions_def)

lemma registry_is_spec_table: "conversionFunctions UnitConverter_new = map_of spec_table"
proof
  fix n
  show "conversionFunctions UnitConverter_new n = map_of spec_table n"
    unfolding registry_lookup
    by (simp add: spec_table_def spec_temperature_def spec_distance_def spec_weight_def
        spec_volume_def)
qed

section \<open>The guards on the registered names\<close>

text \<open>
  Which guards apply to each of the sixteen names, obtained by running the substring
  search on the name.
\<close>

lemmas category_defs = temperature_name_def distance_name_def weight_name_def volume_name_def

lemma cat_CelsiusToFahrenheit:
  "temperature_name ''CelsiusToFahrenheit'' = True" "distance_name ''CelsiusToFahrenheit'' = False"
  "weight_name ''CelsiusToFahrenheit'' = False" "volume_name ''CelsiusToFahrenheit'' = False"
  by (simp_all add: category_defs)

lemma cat_FahrenheitToCelsius:
  "temperature_name ''FahrenheitToCelsius'' = True" "distance_name ''FahrenheitToCelsius'' = False"
  "weight_name ''FahrenheitToCelsius'' = False" "volume_name ''FahrenheitToCelsius'' = False"
  by (simp_all add: category_defs)

lemma cat_CelsiusToKelvin:
  "temperature_name ''CelsiusToKelvin'' = True" "distance_name ''CelsiusToKelvin'' = False"
  "weight_name ''CelsiusToKelvin'' = False" "volume_name ''CelsiusToKelvin'' = False"
  by (simp_all add: category_defs)

lemma cat_KelvinToCelsius:
  "temperature_name ''KelvinToCelsius'' = True" "distance_name ''KelvinToCelsius'' = False"
  "weight_name ''KelvinToCelsius'' = False" "volume_name ''KelvinToCelsius'' = False"
  by (simp_all add: category_defs)

lemma cat_KilometersToMiles:
  "temperature_name ''KilometersToMiles'' = False" "distance_name ''KilometersToMiles'' = True"
  "weight_name ''KilometersToMiles'' = False" "volume_name ''KilometersToMiles'' = False"
  by (simp_all add: category_defs)

lemma cat_MilesToKilometers:
  "temperature_name ''MilesToKilometers'' = False" "distance_name ''MilesToKilometers'' = True"
  "weight_name ''MilesToKilometers'' = False" "volume_name ''MilesToKilometers'' = False"
  by (simp_all add: category_defs)

lemma cat_MetersToFeet:
  "temperature_name ''MetersToFeet'' = False" "distance_name ''MetersToFeet'' = True"
  "weight_name ''MetersToFeet'' = False" "volume_name ''MetersToFeet'' = False"
  by (simp_all add: category_defs)

lemma cat_FeetToMeters:
  "temperature_name ''FeetToMeters'' = False" "distance_name ''FeetToMeters'' = True"
  "weight_name ''FeetToMeters'' = False" "volume_name ''FeetToMeters'' = False"
  by (simp_all add: category_defs)

lemma cat_KilogramsToPounds:
  "temperature_name ''KilogramsToPounds'' = False" "distance_name ''KilogramsToPounds'' = False"
  "weight_name ''KilogramsToPounds'' = True" "volume_name ''KilogramsToPounds'' = False"
  by (simp_all add: category_defs)

lemma cat_PoundsToKilograms:
  "temperature_name ''PoundsToKilograms'' = False" "distance_name ''PoundsToKilograms'' = False"
  "weight_name ''PoundsToKilograms'' = True" "volume_name ''PoundsToKilograms'' = False"
  by (simp_all add: category_defs)

lemma cat_GramsToOunces:
  "temperature_name ''GramsToOunces'' = False" "distance_name ''GramsToOunces'' = False"
  "weight_name ''GramsToOunces'' = True" "volume_name ''GramsToOunces'' = False"
  by (simp_all add: category_defs)

lemma cat_OuncesToGrams:
  "temperature_name ''OuncesToGrams'' = False" "distance_name ''OuncesToGrams'' = False"
  "weight_name ''OuncesToGrams'' = True" "volume_name ''OuncesToGrams'' = False"
  by (simp_all add: category_defs)

lemma cat_LitersToGallons:
  "temperature_name ''LitersToGallons'' = False" "distance_name ''LitersToGallons'' = False"
  "weight_name ''LitersToGallons'' = False" "volume_name ''LitersToGallons'' = True"
  by (simp_all add: category_defs)

lemma cat_GallonsToLiters:
  "temperature_name ''GallonsToLiters'' = False" "distance_name ''GallonsToLiters'' = False"
  "weight_name ''GallonsToLiters'' = False" "volume_name ''GallonsToLiters'' = True"
  by (simp_all add: category_defs)

lemma cat_MillilitersToFluidOunces:
  "temperature_name ''MillilitersToFluidOunces'' = False" "distance_name ''MillilitersToFluidOunces'' = False"
  "weight_name ''MillilitersToFluidOunces'' = True" "volume_name ''MillilitersToFluidOunces'' = True"
  by (simp_all add: category_defs)

lemma cat_FluidOuncesToMilliliters:
  "temperature_name ''FluidOuncesToMilliliters'' = False" "distance_name ''FluidOuncesToMilliliters'' = False"
  "weight_name ''FluidOuncesToMilliliters'' = True" "volume_name ''FluidOuncesToMilliliters'' = True"
  by (simp_all add: category_defs)

lemma cVal_CelsiusToFahrenheit: "cVal ''CelsiusToFahrenheit'' v = (v - Finite 32) * Finite 5 / Finite 9"
  by (simp add: cVal_def)

lemma cVal_FahrenheitToCelsius: "cVal ''FahrenheitToCelsius'' v = (v - Finite 32) * Finite 5 / Finite 9"
  by (simp add: cVal_def)

lemma cVal_CelsiusToKelvin: "cVal ''CelsiusToKelvin'' v = v - lit 273.15"
  by (simp add: cVal_def)

lemma cVal_KelvinToCelsius: "cVal ''KelvinToCelsius'' v = v - lit 273.15"
  by (simp add: cVal_def)

lemmas error_defs =
  BelowAbsoluteZero_def NegativeDistance_def NegativeWeight_def NegativeVolume_def
  UnknownConversion_def

lemma convert_cases:
  "convert c n v =
    (if temperature_name n \<and> cVal n v < - lit 273.15 then Inl BelowAbsoluteZero
     else if distance_name n \<and> v < Finite 0 then Inl NegativeDistance
     else if weight_name n \<and> v < Finite 0 then Inl NegativeWeight
     else if volume_name n \<and> v < Finite 0 then Inl NegativeVolume
     else (case conversionFunctions c n of
             Some f \<Rightarrow> Inr (f (clamp v))
           | None \<Rightarrow> Inl (UnknownConversion n)))"
  unfolding convert_def error_defs Let_def by simp

lemma convert_passes:
  "passes_validation n v \<Longrightarrow>
   convert c n v =
     (case conversionFunctions c n of
        Some f \<Rightarrow> Inr (f (clamp v))
      | None \<Rightarrow> Inl (UnknownConversion n))"
  unfolding convert_cases passes_validation_def by (cases "conversionFunctions c n") auto

text \<open>What \<^verbatim>\<open>convert\<close> does on each registered name.\<close>

lemma convert_CelsiusToFahrenheit:
  "convert UnitConverter_new ''CelsiusToFahrenheit'' v =
    (if (v - Finite 32) * Finite 5 / Finite 9 < - lit 273.15 then Inl BelowAbsoluteZero
     else Inr (clamp v * Finite 9 / Finite 5 + Finite 32))"
  by (simp add: convert_cases cat_CelsiusToFahrenheit cVal_CelsiusToFahrenheit registry_lookup)

lemma passes_CelsiusToFahrenheit:
  "passes_validation ''CelsiusToFahrenheit'' v \<longleftrightarrow> \<not> (v - Finite 32) * Finite 5 / Finite 9 < - lit 273.15"
  by (simp add: passes_validation_def cat_CelsiusToFahrenheit cVal_CelsiusToFahrenheit)

lemma convert_FahrenheitToCelsius:
  "convert UnitConverter_new ''FahrenheitToCelsius'' v =
    (if (v - Finite 32) * Finite 5 / Finite 9 < - lit 273.15 then Inl BelowAbsoluteZero
     else Inr ((clamp v - Finite 32) * Finite 5 / Finite 9))"
  by (simp add: convert_cases cat_FahrenheitToCelsius cVal_FahrenheitToCelsius registry_lookup)

lemma passes_FahrenheitToCelsius:
  "passes_validation ''FahrenheitToCelsius'' v \<longleftrightarrow> \<not> (v - Finite 32) * Finite 5 / Finite 9 < - lit 273.15"
  by (simp add: passes_validation_def cat_FahrenheitToCelsius cVal_FahrenheitToCelsius)

lemma convert_CelsiusToKelvin:
  "convert UnitConverter_new ''CelsiusToKelvin'' v =
    (if v - lit 273.15 < - lit 273.15 then Inl BelowAbsoluteZero
     else Inr (clamp v + lit 273.15))"
  by (simp add: convert_cases cat_CelsiusToKelvin cVal_CelsiusToKelvin registry_lookup)

lemma passes_CelsiusToKelvin:
  "passes_validation ''CelsiusToKelvin'' v \<longleftrightarrow> \<not> v - lit 273.15 < - lit 273.15"
  by (simp add: passes_validation_def cat_CelsiusToKelvin cVal_CelsiusToKelvin)

lemma convert_KelvinToCelsius:
  "convert UnitConverter_new ''KelvinToCelsius'' v =
    (if v - lit 273.15 < - lit 273.15 then Inl BelowAbsoluteZero
     else Inr (clamp v - lit 273.15))"
  by (simp add: convert_cases cat_KelvinToCelsius cVal_KelvinToCelsius registry_lookup)

lemma passes_KelvinToCelsius:
  "passes_validation ''KelvinToCelsius'' v \<longleftrightarrow> \<not> v - lit 273.15 < - lit 273.15"
  by (simp add: passes_validation_def cat_KelvinToCelsius cVal_KelvinToCelsius)

lemma convert_KilometersToMiles:
  "convert UnitConverter_new ''KilometersToMiles'' v =
    (if v < Finite 0 then Inl NegativeDistance
     else Inr (clamp v * lit 0.621371))"
  by (simp add: convert_cases cat_KilometersToMiles registry_lookup)

lemma passes_KilometersToMiles:
  "passes_validation ''KilometersToMiles'' v \<longleftrightarrow> \<not> v < Finite 0"
  by (simp add: passes_validation_def cat_KilometersToMiles)

lemma convert_MilesToKilometers:
  "convert UnitConverter_new ''MilesToKilometers'' v =
    (if v < Finite 0 then Inl NegativeDistance
     else Inr (clamp v / lit 0.621371))"
  by (simp add: convert_cases cat_MilesToKilometers registry_lookup)

lemma passes_MilesToKilometers:
  "passes_validation ''MilesToKilometers'' v \<longleftrightarrow> \<not> v < Finite 0"
  by (simp add: passes_validation_def cat_MilesToKilometers)

lemma convert_MetersToFeet:
  "convert UnitConverter_new ''MetersToFeet'' v =
    (if v < Finite 0 then Inl NegativeDistance
     else Inr (clamp v * lit 3.28084))"
  by (simp add: convert_cases cat_MetersToFeet registry_lookup)

lemma passes_MetersToFeet:
  "passes_validation ''MetersToFeet'' v \<longleftrightarrow> \<not> v < Finite 0"
  by (simp add: passes_validation_def cat_MetersToFeet)

lemma convert_FeetToMeters:
  "convert UnitConverter_new ''FeetToMeters'' v =
    (if v < Finite 0 then Inl NegativeDistance
     else Inr (clamp v / lit 3.28084))"
  by (simp add: convert_cases cat_FeetToMeters registry_lookup)

lemma passes_FeetToMeters:
  "passes_validation ''FeetToMeters'' v \<longleftrightarrow> \<not> v < Finite 0"
  by (simp add: passes_validation_def cat_FeetToMeters)

lemma convert_KilogramsToPounds:
  "convert UnitConverter_new ''KilogramsToPounds'' v =
    (if v < Finite 0 then Inl NegativeWeight
     else Inr (clamp v * lit 2.20462))"
  by (simp add: convert_cases cat_KilogramsToPounds registry_lookup)

lemma passes_KilogramsToPounds:
  "passes_validation ''KilogramsToPounds'' v \<longleftrightarrow> \<not> v < Finite 0"
  by (simp add: passes_validation_def cat_KilogramsToPounds)

lemma convert_PoundsToKilograms:
  "convert UnitConverter_new ''PoundsToKilograms'' v =
    (if v < Finite 0 then Inl NegativeWeight
     else Inr (clamp v / lit 2.20462))"
  by (simp add: convert_cases cat_PoundsToKilograms registry_lookup)

lemma passes_PoundsToKilograms:
  "passes_validation ''PoundsToKilograms'' v \<longleftrightarrow> \<not> v < Finite 0"
  by (simp add: passes_validation_def cat_PoundsToKilograms)

lemma convert_GramsToOunces:
  "convert UnitConverter_new ''GramsToOunces'' v =
    (if v < Finite 0 then Inl NegativeWeight
     else Inr (clamp v * lit 0.035274))"
  by (simp add: convert_cases cat_GramsToOunces registry_lookup)

lemma passes_GramsToOunces:
  "passes_validation ''GramsToOunces'' v \<longleftrightarrow> \<not> v < Finite 0"
  by (simp add: passes_validation_def cat_GramsToOunces)

lemma convert_OuncesToGrams:
  "convert UnitConverter_new ''OuncesToGrams'' v =
    (if v < Finite 0 then Inl NegativeWeight
     else Inr (clamp v / lit 0.035274))"
  by (simp add: convert_cases cat_OuncesToGrams registry_lookup)

lemma passes_OuncesToGrams:
  "passes_validation ''OuncesToGrams'' v \<longleftrightarrow> \<not> v < Finite 0"
  by (simp add: passes_validation_def cat_OuncesToGrams)

lemma convert_LitersToGallons:
  "convert UnitConverter_new ''LitersToGallons'' v =
    (if v < Finite 0 then Inl NegativeVolume
     else Inr (clamp v * lit 0.264172))"
  by (simp add: convert_cases cat_LitersToGallons registry_lookup)

lemma passes_LitersToGallons:
  "passes_validation ''LitersToGallons'' v \<longleftrightarrow> \<not> v < Finite 0"
  by (simp add: passes_validation_def cat_LitersToGallons)

lemma convert_GallonsToLiters:
  "convert UnitConverter_new ''GallonsToLiters'' v =
    (if v < Finite 0 then Inl NegativeVolume
     else Inr (clamp v / lit 0.264172))"
  by (simp add: convert_cases cat_GallonsToLiters registry_lookup)

lemma passes_GallonsToLiters:
  "passes_validation ''GallonsToLiters'' v \<longleftrightarrow> \<not> v < Finite 0"
  by (simp add: passes_validation_def cat_GallonsToLiters)

lemma convert_MillilitersToFluidOunces:
  "convert UnitConverter_new ''MillilitersToFluidOunces'' v =
    (if v < Finite 0 then Inl NegativeWeight
     else Inr (clamp v * lit 0.033814))"
  by (simp add: convert_cases cat_MillilitersToFluidOunces registry_lookup)

lemma passes_MillilitersToFluidOunces:
  "passes_validation ''MillilitersToFluidOunces'' v \<longleftrightarrow> \<not> v < Finite 0"
  by (simp add: passes_validation_def cat_MillilitersToFluidOunces)

lemma convert_FluidOuncesToMilliliters:
  "convert UnitConverter_new ''FluidOuncesToMilliliters'' v =
    (if v < Finite 0 then Inl NegativeWeight
     else Inr (clamp v / lit 0.033814))"
  by (simp add: convert_cases cat_FluidOuncesToMilliliters registry_lookup)

lemma passes_FluidOuncesToMilliliters:
  "passes_validation ''FluidOuncesToMilliliters'' v \<longleftrightarrow> \<not> v < Finite 0"
  by (simp add: passes_validation_def cat_FluidOuncesToMilliliters)

section \<open>Evaluating the arithmetic\<close>

text \<open>
  Rounding at a given exponent, the integer literals, and the decimal literals of the
  source: each is a finite double within \<open>2\<^sup>-\<^sup>2\<^sup>8\<close> of its decimal value.
\<close>

lemma round_real_evalI:
  assumes "2 powi e \<le> \<bar>r\<bar>" and "\<bar>r\<bar> < 2 powi (e + 1)" and "- 1022 \<le> e"
    and "round_even (r / 2 powi (e - 52)) = n" and "q = of_int n * 2 powi (e - 52)"
  shows "round_real r = q"
proof -
  have "0 < \<bar>r\<bar>" using assms(1) zero_less_power_int [of "2::real" e] by linarith
  then have "r \<noteq> 0" by simp
  then show ?thesis using ulp_eq [OF assms(1-3)] assms(4,5) by (simp add: round_real_def)
qed

lemma round64_evalI:
  assumes "round_real r = q" and "\<bar>q\<bar> < 2 ^ 1024"
  shows "round64 r = Finite q"
  using assms by (simp add: round64_def)

lemma round64_0 [simp]: "round64 0 = Finite 0"
  using round64_of_int [of 0] by simp

lemma round64_1 [simp]: "round64 1 = Finite 1"
  using round64_of_int [of 1] by simp

lemma round64_numeral [simp]:
  "(numeral w :: int) < 2 ^ 53 \<Longrightarrow> round64 (numeral w) = Finite (numeral w)"
  using round64_of_int [of "numeral w"] by simp

lemma round64_neg_numeral [simp]:
  "(numeral w :: int) < 2 ^ 53 \<Longrightarrow> round64 (- numeral w) = Finite (- numeral w)"
  using round64_of_int [of "- numeral w"] by simp

lemma lit_finite: "\<bar>r\<bar> \<le> 33554432 \<Longrightarrow> lit r = Finite (round_real r)"
  by (simp add: lit_def round64_near)

lemma lit_idem:
  assumes "lit r = Finite q"
  shows "round64 q = Finite q" and "round64 (- q) = Finite (- q)"
  using assms round64_idem [of r q] by (simp_all add: lit_def)

lemma lit_ex:
  assumes "\<bar>r\<bar> \<le> 33554432"
  shows "\<exists>q. lit r = Finite q \<and> \<bar>q - r\<bar> \<le> 1 / 268435456 \<and>
    round64 q = Finite q \<and> round64 (- q) = Finite (- q)"
proof -
  have l: "lit r = Finite (round_real r)" using assms by (rule lit_finite)
  from lit_idem [OF l] round_real_near [OF assms] l show ?thesis by blast
qed

lemma lit_273_15:
  "\<exists>c. lit 273.15 = Finite c \<and> 273 < c \<and> c < 274 \<and>
    round64 c = Finite c \<and> round64 (- c) = Finite (- c)"
proof -
  have "\<bar>273.15::real\<bar> \<le> 33554432" by simp
  from lit_ex [OF this] obtain c where l: "lit 273.15 = Finite c"
    and b: "\<bar>c - 273.15\<bar> \<le> 1 / 268435456"
    and i: "round64 c = Finite c" "round64 (- c) = Finite (- c)"
    by blast
  from b have b': "\<bar>c - 5463 / 20\<bar> \<le> 1 / 268435456" by simp
  from b' have "273 < c" by linarith
  moreover from b' have "c < 274" by linarith
  ultimately show ?thesis using l i by blast
qed

lemma round64_ex:
  assumes "\<bar>r\<bar> \<le> 33554432"
  shows "\<exists>q. round64 r = Finite q \<and> \<bar>q - r\<bar> \<le> 1 / 268435456"
  using round64_near [OF assms] round_real_near [OF assms] by blast

lemma lit_3_28084: "lit 3.28084 = Finite (7387794900731109 / 2 ^ 51)"
  unfolding lit_def
  by (rule round64_evalI, rule round_real_evalI [where e = 1 and n = 7387794900731109])
    (simp_all add: round_even_def Let_def power_int_minus_divide)

lemma lit_328_084: "lit 328.084 = Finite (5771714766196179 / 2 ^ 44)"
  unfolding lit_def
  by (rule round64_evalI, rule round_real_evalI [where e = 8 and n = 5771714766196179])
    (simp_all add: round_even_def Let_def power_int_minus_divide)

lemma meters_to_feet_100: "Finite 100 * lit 3.28084 = lit 328.084"
proof -
  have "round64 (100 * (7387794900731109 / 2 ^ 51)) = Finite (5771714766196179 / 2 ^ 44)"
    by (rule round64_evalI, rule round_real_evalI [where e = 8 and n = 5771714766196179])
      (simp_all add: round_even_def Let_def power_int_minus_divide)
  then show ?thesis
    unfolding lit_3_28084 lit_328_084 times_double.simps(1) .
qed

section \<open>Helper facts\<close>

lemma errors_distinct:
  "BelowAbsoluteZero \<noteq> NegativeDistance" "BelowAbsoluteZero \<noteq> NegativeWeight"
  "BelowAbsoluteZero \<noteq> NegativeVolume" "BelowAbsoluteZero \<noteq> UnknownConversion n"
  "NegativeDistance \<noteq> NegativeWeight" "NegativeDistance \<noteq> NegativeVolume"
  "NegativeWeight \<noteq> NegativeVolume"
  "NegativeDistance \<noteq> UnknownConversion n" "NegativeWeight \<noteq> UnknownConversion n"
  "NegativeVolume \<noteq> UnknownConversion n"
  by (simp_all add: error_defs)

lemma temperature_name_sublist:
  "temperature_name n \<longleftrightarrow>
     sublist ''Celsius'' n \<or> sublist ''Fahrenheit'' n \<or> sublist ''Kelvin'' n"
  by (simp add: temperature_name_def found_string_find)

lemma cVal_normalized: "cVal n v = normalized n v"
  by (simp add: cVal_def normalized_def found_string_find)

lemma clamp_id: "Finite (- 1000000) \<le> v \<Longrightarrow> v \<le> Finite 1000000 \<Longrightarrow> clamp v = v"
  by (cases v) (simp_all add: clamp_def)

lemma clamp_Finite:
  "clamp (Finite x) = Finite (if 1000000 < x then 1000000 else if x < - 1000000 then - 1000000 else x)"
  by (simp add: clamp_def)

lemma not_less_if_le: "Finite a \<le> v \<Longrightarrow> \<not> v < Finite a"
  by (cases v) simp_all

lemma isnan_iff: "isnan v \<longleftrightarrow> v = NaN"
  by (cases v) simp_all

lemma run_calls_eq:
  "run_calls c calls = (map (\<lambda>call. convert c (fst call) (snd call)) calls, c)"
  by (induction calls) (simp_all add: convert_call_def)

lemma spec_table_keys: "map fst spec_table = allConversions"
  by (simp add: spec_table_def spec_temperature_def spec_distance_def spec_weight_def
      spec_volume_def allConversions_def)

lemma convert_in_range:
  assumes "conversionFunctions c n = Some f" and "in_range n v"
  shows "convert c n v = Inr (f v)"
  using assms by (simp add: in_range_def convert_passes clamp_id)

lemmas convert_registered =
  convert_CelsiusToFahrenheit convert_FahrenheitToCelsius convert_CelsiusToKelvin
  convert_KelvinToCelsius convert_KilometersToMiles convert_MilesToKilometers
  convert_MetersToFeet convert_FeetToMeters convert_KilogramsToPounds
  convert_PoundsToKilograms convert_GramsToOunces convert_OuncesToGrams
  convert_LitersToGallons convert_GallonsToLiters convert_MillilitersToFluidOunces
  convert_FluidOuncesToMilliliters

lemmas passes_registered =
  passes_CelsiusToFahrenheit passes_FahrenheitToCelsius passes_CelsiusToKelvin
  passes_KelvinToCelsius passes_KilometersToMiles passes_MilesToKilometers
  passes_MetersToFeet passes_FeetToMeters passes_KilogramsToPounds
  passes_PoundsToKilograms passes_GramsToOunces passes_OuncesToGrams
  passes_LitersToGallons passes_GallonsToLiters passes_MillilitersToFluidOunces
  passes_FluidOuncesToMilliliters

lemma fahrenheit_guard_positive:
  "\<not> (Finite 10000000 - Finite 32) * Finite 5 / Finite 9 < - lit 273.15"
  "\<not> (Finite 1000000 - Finite 32) * Finite 5 / Finite 9 < - lit 273.15"
  "\<not> (Finite 5 - Finite 32) * Finite 5 / Finite 9 < - lit 273.15"
proof -
  from lit_273_15 obtain c where c: "lit 273.15 = Finite c" "273 < c" by blast
  have "\<bar>49999840 / 9 :: real\<bar> \<le> 33554432" by simp
  from round64_ex [OF this] obtain q where q: "round64 (49999840 / 9) = Finite q"
    "\<bar>q - 49999840 / 9\<bar> \<le> 1 / 268435456"
    by blast
  from q(2) have "0 < q" by linarith
  then show "\<not> (Finite 10000000 - Finite 32) * Finite 5 / Finite 9 < - lit 273.15"
    unfolding c(1) using c(2) by (simp add: q(1))
  have "\<bar>4999840 / 9 :: real\<bar> \<le> 33554432" by simp
  from round64_ex [OF this] obtain p where p: "round64 (4999840 / 9) = Finite p"
    "\<bar>p - 4999840 / 9\<bar> \<le> 1 / 268435456"
    by blast
  from p(2) have "0 < p" by linarith
  then show "\<not> (Finite 1000000 - Finite 32) * Finite 5 / Finite 9 < - lit 273.15"
    unfolding c(1) using c(2) by (simp add: p(1))
  show "\<not> (Finite 5 - Finite 32) * Finite 5 / Finite 9 < - lit 273.15"
    unfolding c(1) using c(2) by simp
qed

lemma guards_at_negative_million:
  "(Finite (- 1000000) - Finite 32) * Finite 5 / Finite 9 < - lit 273.15"
  "Finite (- 1000000) - lit 273.15 < - lit 273.15"
proof -
  from lit_273_15 obtain c where c: "lit 273.15 = Finite c" "273 < c" "c < 274" by blast
  have "\<bar>- (1666720 / 3) :: real\<bar> \<le> 33554432" by simp
  from round64_ex [OF this] obtain q where q: "round64 (- (1666720 / 3)) = Finite q"
    "\<bar>q - (- (1666720 / 3))\<bar> \<le> 1 / 268435456"
    by blast
  from q(2) have "q < - 274" by linarith
  then show "(Finite (- 1000000) - Finite 32) * Finite 5 / Finite 9 < - lit 273.15"
    unfolding c(1) using c(3) by (simp add: q(1))
  have "\<bar>- 1000000 - c\<bar> \<le> 33554432" using c(2,3) by simp
  from round64_ex [OF this] obtain p where p: "round64 (- 1000000 - c) = Finite p"
    "\<bar>p - (- 1000000 - c)\<bar> \<le> 1 / 268435456"
    by blast
  from p(2) have "p < - c" by linarith
  then show "Finite (- 1000000) - lit 273.15 < - lit 273.15"
    unfolding c(1) by (simp add: p(1))
qed

section \<open>The registry and the formulas\<close>

text \<open>
  Claim C1. Construction leaves the registry equal to the table of the construction
  contract: sixteen entries under sixteen different names, four in each category, each
  bound to the formula of the table. On every in-range input (one that passes the
  validation of the name and lies within the clamp bounds) \<^verbatim>\<open>convert\<close> returns the
  table's formula of the input; so \<^verbatim>\<open>CelsiusToKelvin\<close> of \<open>0\<close> is \<^verbatim>\<open>273.15\<close>,
  \<^verbatim>\<open>CelsiusToFahrenheit\<close> of \<open>0\<close> is \<open>32\<close> and \<^verbatim>\<open>KilometersToMiles\<close> of \<open>1\<close> is
  \<^verbatim>\<open>0.621371\<close>, the doubles of these literals.
\<close>

theorem registry_formulas:
  "conversionFunctions UnitConverter_new = map_of spec_table \<and>
   distinct (map fst spec_table) \<and>
   card (dom (conversionFunctions UnitConverter_new)) = 16 \<and>
   length spec_temperature = 4 \<and> length spec_distance = 4 \<and>
   length spec_weight = 4 \<and> length spec_volume = 4 \<and>
   (\<forall>(n, f) \<in> set spec_table. \<forall>x. in_range n x \<longrightarrow>
      convert UnitConverter_new n x = Inr (f x)) \<and>
   convert UnitConverter_new ''CelsiusToKelvin'' (Finite 0) = Inr (lit 273.15) \<and>
   convert UnitConverter_new ''CelsiusToFahrenheit'' (Finite 0) = Inr (Finite 32) \<and>
   convert UnitConverter_new ''KilometersToMiles'' (Finite 1) = Inr (lit 0.621371)"
proof -
  have d: "distinct (map fst spec_table)"
    by (simp add: spec_table_keys distinct_allConversions)
  have l: "length spec_temperature = 4 \<and> length spec_distance = 4 \<and>
      length spec_weight = 4 \<and> length spec_volume = 4"
    by (simp add: spec_temperature_def spec_distance_def spec_weight_def spec_volume_def)
  have b: "\<forall>(n, f) \<in> set spec_table. \<forall>x. in_range n x \<longrightarrow>
      convert UnitConverter_new n x = Inr (f x)"
  proof (clarify)
    fix n f x
    assume "(n, f) \<in> set spec_table" and r: "in_range n x"
    then have "map_of spec_table n = Some f" using d by simp
    then have "conversionFunctions UnitConverter_new n = Some f"
      by (simp add: registry_is_spec_table)
    then show "convert UnitConverter_new n x = Inr (f x)" using r by (rule convert_in_range)
  qed
  from lit_273_15 obtain c where c: "lit 273.15 = Finite c" "273 < c"
    "round64 c = Finite c" "round64 (- c) = Finite (- c)"
    by blast
  have e1: "convert UnitConverter_new ''CelsiusToKelvin'' (Finite 0) = Inr (lit 273.15)"
    unfolding convert_CelsiusToKelvin c(1) by (simp add: clamp_Finite c(3,4))
  have "\<bar>- (160 / 9) :: real\<bar> \<le> 33554432" by simp
  from round64_ex [OF this] obtain q where q: "round64 (- (160 / 9)) = Finite q"
    "\<bar>q - (- (160 / 9))\<bar> \<le> 1 / 268435456"
    by blast
  from q(2) have "- 18 < q" by linarith
  then have g: "\<not> (Finite 0 - Finite 32) * Finite 5 / Finite 9 < - Finite c"
    using c(2) by (simp add: q(1))
  have e2: "convert UnitConverter_new ''CelsiusToFahrenheit'' (Finite 0) = Inr (Finite 32)"
    unfolding convert_CelsiusToFahrenheit c(1) using g by (simp add: clamp_Finite)
  have "\<bar>0.621371 :: real\<bar> \<le> 33554432" by simp
  from lit_ex [OF this] obtain k where k: "lit 0.621371 = Finite k" "round64 k = Finite k"
    by blast
  have e3: "convert UnitConverter_new ''KilometersToMiles'' (Finite 1) = Inr (lit 0.621371)"
    unfolding convert_KilometersToMiles k(1) by (simp add: clamp_Finite k(2))
  from registry_is_spec_table d registry_card l b e1 e2 e3 show ?thesis by blast
qed

theorem registry_formulas_witness:
  "in_range ''FahrenheitToCelsius'' (Finite 212) \<and>
   convert UnitConverter_new ''FahrenheitToCelsius'' (Finite 212) = Inr (Finite 100)"
proof -
  from lit_273_15 obtain c where c: "lit 273.15 = Finite c" "273 < c" by blast
  have "passes_validation ''FahrenheitToCelsius'' (Finite 212)"
    unfolding passes_FahrenheitToCelsius c(1) using c(2) by simp
  then have r: "in_range ''FahrenheitToCelsius'' (Finite 212)"
    by (simp add: in_range_def)
  have m: "(''FahrenheitToCelsius'', \<lambda>f. (f - Finite 32) * Finite 5 / Finite 9) \<in> set spec_table"
    by (simp add: spec_table_def spec_temperature_def)
  from registry_formulas
  have "\<forall>(n, f) \<in> set spec_table. \<forall>x. in_range n x \<longrightarrow>
      convert UnitConverter_new n x = Inr (f x)"
    by blast
  with m r
  have "convert UnitConverter_new ''FahrenheitToCelsius'' (Finite 212) =
      Inr ((Finite 212 - Finite 32) * Finite 5 / Finite 9)"
    by fastforce
  with r show ?thesis by simp
qed

text \<open>
  Claim C10. For a registered name and a value between \<open>-1000000\<close> and \<open>1000000\<close>
  that passes the validation of the name, the clamp is the identity and \<^verbatim>\<open>convert\<close>
  returns the registered formula of the value itself, with no failure. Two successive
  calls on one converter with the same name and value have the same outcome, be it a
  result or a failure.
\<close>

theorem in_range_exact:
  assumes "conversionFunctions UnitConverter_new n = Some f"
    and "passes_validation n v"
    and "Finite (- 1000000) \<le> v" and "v \<le> Finite 1000000"
  shows "clamp v = v \<and> convert UnitConverter_new n v = Inr (f v) \<and>
    fst (run_calls UnitConverter_new [(n, v), (n, v)]) = [Inr (f v), Inr (f v)] \<and>
    (\<forall>c m w. \<exists>r. fst (run_calls c [(m, w), (m, w)]) = [r, r])"
  using assms by (simp add: clamp_id convert_passes run_calls_eq)

theorem in_range_exact_witness:
  "conversionFunctions UnitConverter_new ''MetersToFeet'' = Some (\<lambda>m. m * lit 3.28084) \<and>
   passes_validation ''MetersToFeet'' (Finite 100) \<and>
   Finite (- 1000000) \<le> Finite 100 \<and> Finite 100 \<le> Finite 1000000 \<and>
   convert UnitConverter_new ''MetersToFeet'' (Finite 100) = Inr (lit 328.084)"
proof -
  have a: "conversionFunctions UnitConverter_new ''MetersToFeet'' = Some (\<lambda>m. m * lit 3.28084)"
    by (simp add: registry_lookup)
  have b: "passes_validation ''MetersToFeet'' (Finite 100)"
    by (simp add: passes_MetersToFeet)
  have c: "Finite (- 1000000) \<le> Finite 100" and d: "Finite 100 \<le> Finite 1000000"
    by simp_all
  from in_range_exact [OF a b c d]
  have "convert UnitConverter_new ''MetersToFeet'' (Finite 100) = Inr (Finite 100 * lit 3.28084)"
    by simp
  then have "convert UnitConverter_new ''MetersToFeet'' (Finite 100) = Inr (lit 328.084)"
    by (simp only: meters_to_feet_100)
  with a b c d show ?thesis by blast
qed

text \<open>
  Claim C9. A call of \<^verbatim>\<open>convert\<close>, whether it returns or throws, leaves the converter as
  it was. After any sequence of calls on a constructed converter the object is still the
  constructed one, every call of the sequence has been answered from the registry of the
  construction, and that registry has the sixteen names as its keys.
\<close>

theorem registry_immutable:
  "snd (convert_call c call) = c \<and>
   snd (run_calls UnitConverter_new calls) = UnitConverter_new \<and>
   fst (run_calls UnitConverter_new calls) =
     map (\<lambda>call. convert UnitConverter_new (fst call) (snd call)) calls \<and>
   dom (conversionFunctions (snd (run_calls UnitConverter_new calls))) = set allConversions \<and>
   card (dom (conversionFunctions (snd (run_calls UnitConverter_new calls)))) = 16"
  using registry_card registry_dom_allConversions
  by (simp add: convert_call_def run_calls_eq)

section \<open>The temperature guard\<close>

text \<open>
  Claim C2. For every converter, name and value: when the name contains ``Celsius'',
  ``Fahrenheit'' or ``Kelvin'', \<^verbatim>\<open>convert\<close> fails with \<open>BelowAbsoluteZero\<close> (the message
  ``Temperature value below absolute zero is not valid.'') exactly when the normalised
  Celsius value of the specification is below \<open>-273.15\<close>. The guard is the first one, so
  this holds whatever the distance, weight and volume guards would say about the value.
\<close>

theorem temperature_check_first:
  assumes "sublist ''Celsius'' n \<or> sublist ''Fahrenheit'' n \<or> sublist ''Kelvin'' n"
  shows "convert c n v = Inl BelowAbsoluteZero \<longleftrightarrow> normalized n v < - lit 273.15"
proof -
  have t: "temperature_name n"
    using assms by (simp add: temperature_name_sublist)
  show ?thesis
  proof (cases "normalized n v < - lit 273.15")
    case True
    then show ?thesis using t by (simp add: convert_cases cVal_normalized)
  next
    case False
    then have "convert c n v \<noteq> Inl BelowAbsoluteZero"
      unfolding convert_cases cVal_normalized
      by (cases "conversionFunctions c n")
        (simp_all add: errors_distinct [symmetric] errors_distinct)
    then show ?thesis using False by simp
  qed
qed

text \<open>
  The name ``KelvinToMiles'' is both a temperature and a distance name; on \<open>-1\<close> the
  distance guard would throw too, and the failure is the temperature one.
\<close>

theorem temperature_check_first_witness:
  "(sublist ''Celsius'' ''KelvinToMiles'' \<or> sublist ''Fahrenheit'' ''KelvinToMiles'' \<or>
      sublist ''Kelvin'' ''KelvinToMiles'') \<and>
   distance_name ''KelvinToMiles'' \<and>
   normalized ''KelvinToMiles'' (Finite (- 1)) < - lit 273.15 \<and>
   convert UnitConverter_new ''KelvinToMiles'' (Finite (- 1)) = Inl BelowAbsoluteZero"
proof -
  have k: "sublist ''Kelvin'' ''KelvinToMiles''"
    by (simp add: found_string_find [symmetric])
  have f: "\<not> sublist ''Fahrenheit'' ''KelvinToMiles''"
    by (simp add: found_string_find [symmetric])
  have d: "distance_name ''KelvinToMiles''"
    by (simp add: distance_name_def)
  from lit_273_15 obtain c where c: "lit 273.15 = Finite c" "273 < c" "c < 274" by blast
  have "\<bar>- 1 - c\<bar> \<le> 33554432" using c(2,3) by simp
  from round64_ex [OF this] obtain q where q: "round64 (- 1 - c) = Finite q"
    "\<bar>q - (- 1 - c)\<bar> \<le> 1 / 268435456"
    by blast
  from q(2) have "q < - c" by linarith
  then have "Finite (- 1) - Finite c < - Finite c" by (simp add: q(1))
  then have n: "normalized ''KelvinToMiles'' (Finite (- 1)) < - lit 273.15"
    unfolding normalized_def c(1) using k f by simp
  from k have h: "sublist ''Celsius'' ''KelvinToMiles'' \<or>
      sublist ''Fahrenheit'' ''KelvinToMiles'' \<or> sublist ''Kelvin'' ''KelvinToMiles''"
    by simp
  from temperature_check_first [OF h, of UnitConverter_new "Finite (- 1)"] n
  have "convert UnitConverter_new ''KelvinToMiles'' (Finite (- 1)) = Inl BelowAbsoluteZero"
    by simp
  with h d n show ?thesis by simp
qed

text \<open>
  \<^verbatim>\<open>CelsiusToKelvin\<close> rejects every Celsius value from \<open>-1000000\<close> to \<open>-1\<close>: the guard
  subtracts \<^verbatim>\<open>273.15\<close> from it as if it were a Kelvin value.
\<close>

lemma celsius_to_kelvin_rejects:
  assumes "x \<le> - 1" and "- 1000000 \<le> x"
  shows "convert UnitConverter_new ''CelsiusToKelvin'' (Finite x) = Inl BelowAbsoluteZero"
proof -
  from lit_273_15 obtain c where c: "lit 273.15 = Finite c" "273 < c" "c < 274" by blast
  have "\<bar>x - c\<bar> \<le> 33554432" using c(2,3) assms by simp
  from round64_ex [OF this] obtain q where q: "round64 (x - c) = Finite q"
    "\<bar>q - (x - c)\<bar> \<le> 1 / 268435456"
    by blast
  from q(2) assms(1) have "q < - c" by linarith
  then show ?thesis unfolding convert_CelsiusToKelvin c(1) by (simp add: q(1))
qed

text \<open>
  Claim C3. The claim has \<^verbatim>\<open>convert("CelsiusToKelvin", -273.15)\<close> succeed, absolute zero
  itself being a valid temperature. The name contains ``Kelvin'', so the guard reads the
  Celsius input as a Kelvin value, subtracts \<^verbatim>\<open>273.15\<close> from it and obtains about
  \<open>-546.3\<close>, which is below \<^verbatim>\<open>-273.15\<close>: the call throws.
\<close>

theorem celsius_to_kelvin_absolute_zero_rejected:
  "convert UnitConverter_new ''CelsiusToKelvin'' (- lit 273.15) = Inl BelowAbsoluteZero"
proof -
  from lit_273_15 obtain c where c: "lit 273.15 = Finite c" "273 < c" "c < 274" by blast
  have "- c \<le> - 1" and "- 1000000 \<le> - c" using c(2,3) by simp_all
  then have "convert UnitConverter_new ''CelsiusToKelvin'' (Finite (- c)) = Inl BelowAbsoluteZero"
    by (rule celsius_to_kelvin_rejects)
  then show ?thesis unfolding c(1) by simp
qed

text \<open>
  The other two inputs of the claim fail as it says.
\<close>

lemma celsius_to_kelvin_below_absolute_zero:
  "convert UnitConverter_new ''CelsiusToKelvin'' (Finite (- 300)) = Inl BelowAbsoluteZero"
  "convert UnitConverter_new ''CelsiusToKelvin'' (- lit 273.16) = Inl BelowAbsoluteZero"
proof -
  show "convert UnitConverter_new ''CelsiusToKelvin'' (Finite (- 300)) = Inl BelowAbsoluteZero"
    by (rule celsius_to_kelvin_rejects) simp_all
  have "\<bar>273.16::real\<bar> \<le> 33554432" by simp
  from lit_ex [OF this] obtain k where k: "lit 273.16 = Finite k"
    "\<bar>k - 273.16\<bar> \<le> 1 / 268435456"
    by blast
  from k(2) have k': "\<bar>k - 6829 / 25\<bar> \<le> 1 / 268435456" by simp
  from k' have "- k \<le> - 1" by linarith
  moreover from k' have "- 1000000 \<le> - k" by linarith
  ultimately
  have "convert UnitConverter_new ''CelsiusToKelvin'' (Finite (- k)) = Inl BelowAbsoluteZero"
    by (rule celsius_to_kelvin_rejects)
  then show "convert UnitConverter_new ''CelsiusToKelvin'' (- lit 273.16) = Inl BelowAbsoluteZero"
    unfolding k(1) by simp
qed

section \<open>The non-negativity guards\<close>

text \<open>
  Claim C4. The claim has a negative input to each volume name fail with
  \<open>NegativeVolume\<close>. The names ``MillilitersToFluidOunces'' and
  ``FluidOuncesToMilliliters'' contain ``Ounces'', so the weight guard, which runs before
  the volume guard, throws ``Negative weight values are not valid.'' on them.
\<close>

theorem fluid_ounces_negative_weight_error:
  "convert UnitConverter_new ''MillilitersToFluidOunces'' (Finite (- 1)) = Inl NegativeWeight \<and>
   convert UnitConverter_new ''FluidOuncesToMilliliters'' (Finite (- 1)) = Inl NegativeWeight \<and>
   NegativeWeight \<noteq> NegativeVolume"
  by (simp add: convert_MillilitersToFluidOunces convert_FluidOuncesToMilliliters
      errors_distinct)

text \<open>
  On the other ten names of the three categories a negative value fails as the claim
  says; on the two fluid-ounce names it is the weight failure for every negative value.
\<close>

lemma negative_rejected_as_claimed:
  assumes "v < Finite 0"
  shows "convert UnitConverter_new ''KilometersToMiles'' v = Inl NegativeDistance"
    and "convert UnitConverter_new ''MilesToKilometers'' v = Inl NegativeDistance"
    and "convert UnitConverter_new ''MetersToFeet'' v = Inl NegativeDistance"
    and "convert UnitConverter_new ''FeetToMeters'' v = Inl NegativeDistance"
    and "convert UnitConverter_new ''KilogramsToPounds'' v = Inl NegativeWeight"
    and "convert UnitConverter_new ''PoundsToKilograms'' v = Inl NegativeWeight"
    and "convert UnitConverter_new ''GramsToOunces'' v = Inl NegativeWeight"
    and "convert UnitConverter_new ''OuncesToGrams'' v = Inl NegativeWeight"
    and "convert UnitConverter_new ''LitersToGallons'' v = Inl NegativeVolume"
    and "convert UnitConverter_new ''GallonsToLiters'' v = Inl NegativeVolume"
  using assms by (simp_all add: convert_registered)

lemma fluid_ounces_negative_always_weight:
  assumes "v < Finite 0"
  shows "convert UnitConverter_new ''MillilitersToFluidOunces'' v = Inl NegativeWeight"
    and "convert UnitConverter_new ''FluidOuncesToMilliliters'' v = Inl NegativeWeight"
  using assms by (simp_all add: convert_registered)

section \<open>Clamping\<close>

text \<open>
  Claim C5. The guards see the value as it was passed. When they let it through,
  \<^verbatim>\<open>convert\<close> applies the registered formula to the value itself if it lies between
  \<open>-1000000\<close> and \<open>1000000\<close>, to \<open>1000000\<close> if it is larger and to \<open>-1000000\<close> if it is
  smaller. So \<open>10000000\<close> is converted as \<open>1000000\<close> is, and \<open>-10000000\<close> as \<open>-1000000\<close>
  is, for any name whose validation both inputs pass.
\<close>

theorem clamp_after_validation:
  "(passes_validation n v \<longrightarrow>
      convert c n v =
        (case conversionFunctions c n of
           Some f \<Rightarrow>
             Inr (f (if v > Finite 1000000 then Finite 1000000
                     else if v < Finite (- 1000000) then Finite (- 1000000) else v))
         | None \<Rightarrow> Inl (UnknownConversion n))) \<and>
   (conversionFunctions c n = Some g \<and> passes_validation n (Finite 10000000) \<longrightarrow>
      convert c n (Finite 10000000) = Inr (g (Finite 1000000))) \<and>
   (conversionFunctions c n = Some g \<and> passes_validation n (Finite (- 10000000)) \<longrightarrow>
      convert c n (Finite (- 10000000)) = Inr (g (Finite (- 1000000)))) \<and>
   (passes_validation n (Finite 10000000) \<and> passes_validation n (Finite 1000000) \<longrightarrow>
      convert c n (Finite 10000000) = convert c n (Finite 1000000)) \<and>
   (passes_validation n (Finite (- 10000000)) \<and> passes_validation n (Finite (- 1000000)) \<longrightarrow>
      convert c n (Finite (- 10000000)) = convert c n (Finite (- 1000000)))"
proof -
  have a: "clamp (Finite 10000000) = Finite 1000000" "clamp (Finite 1000000) = Finite 1000000"
    "clamp (Finite (- 10000000)) = Finite (- 1000000)"
    "clamp (Finite (- 1000000)) = Finite (- 1000000)"
    by (simp_all add: clamp_Finite)
  show ?thesis
    by (cases "conversionFunctions c n") (simp_all add: convert_passes a, simp_all add: clamp_def)
qed

text \<open>
  On the constructed converter \<open>10000000\<close> and \<open>1000000\<close> degrees Celsius both come
  out as \<open>1800032\<close> degrees Fahrenheit, and \<open>5\<close> degrees, which the clamp leaves alone, as
  \<open>41\<close>. The lower bound of the clamp is reached on a converter whose registry holds a
  name that no guard applies to.
\<close>

theorem clamp_after_validation_witness:
  "passes_validation ''CelsiusToFahrenheit'' (Finite 10000000) \<and>
   passes_validation ''CelsiusToFahrenheit'' (Finite 1000000) \<and>
   passes_validation ''CelsiusToFahrenheit'' (Finite 5) \<and>
   convert UnitConverter_new ''CelsiusToFahrenheit'' (Finite 10000000) = Inr (Finite 1800032) \<and>
   convert UnitConverter_new ''CelsiusToFahrenheit'' (Finite 1000000) = Inr (Finite 1800032) \<and>
   convert UnitConverter_new ''CelsiusToFahrenheit'' (Finite 5) = Inr (Finite 41) \<and>
   passes_validation ''Negate'' (Finite (- 10000000)) \<and>
   passes_validation ''Negate'' (Finite (- 1000000)) \<and>
   convert \<lparr>conversionFunctions = [''Negate'' \<mapsto> uminus]\<rparr> ''Negate'' (Finite (- 10000000)) =
     Inr (Finite 1000000) \<and>
   convert \<lparr>conversionFunctions = [''Negate'' \<mapsto> uminus]\<rparr> ''Negate'' (Finite (- 1000000)) =
     Inr (Finite 1000000)"
proof -
  have p: "passes_validation ''CelsiusToFahrenheit'' (Finite 10000000)"
    "passes_validation ''CelsiusToFahrenheit'' (Finite 1000000)"
    "passes_validation ''CelsiusToFahrenheit'' (Finite 5)"
    using fahrenheit_guard_positive by (simp_all add: passes_CelsiusToFahrenheit)
  have q: "passes_validation ''Negate'' (Finite (- 10000000))"
    "passes_validation ''Negate'' (Finite (- 1000000))"
    by (simp_all add: passes_validation_def category_defs)
  have l: "conversionFunctions UnitConverter_new ''CelsiusToFahrenheit'' =
      Some (\<lambda>c. c * Finite 9 / Finite 5 + Finite 32)"
    by (simp add: registry_lookup)
  note general = clamp_after_validation
    [where n = "''CelsiusToFahrenheit''" and c = UnitConverter_new, THEN conjunct1, rule_format]
  have x: "convert UnitConverter_new ''CelsiusToFahrenheit'' (Finite 10000000) =
      Inr (Finite 1800032)"
    by (simp add: general [OF p(1)] l)
  have y: "convert UnitConverter_new ''CelsiusToFahrenheit'' (Finite 1000000) =
      Inr (Finite 1800032)"
    by (simp add: general [OF p(2)] l)
  have z: "convert UnitConverter_new ''CelsiusToFahrenheit'' (Finite 5) = Inr (Finite 41)"
    by (simp add: general [OF p(3)] l)
  note negative = clamp_after_validation
    [where n = "''Negate''" and c = "\<lparr>conversionFunctions = [''Negate'' \<mapsto> uminus]\<rparr>",
      THEN conjunct1, rule_format]
  have u: "convert \<lparr>conversionFunctions = [''Negate'' \<mapsto> uminus]\<rparr> ''Negate''
      (Finite (- 10000000)) = Inr (Finite 1000000)"
    by (simp add: negative [OF q(1)])
  have w: "convert \<lparr>conversionFunctions = [''Negate'' \<mapsto> uminus]\<rparr> ''Negate''
      (Finite (- 1000000)) = Inr (Finite 1000000)"
    by (simp add: negative [OF q(2)])
  from p q x y z u w show ?thesis by simp
qed

text \<open>
  No name of the constructed converter lets \<open>-1000000\<close> through its validation, so on
  that converter the comparison of \<open>-10000000\<close> with \<open>-1000000\<close> has no instance.
\<close>

lemma registered_reject_negative_million:
  "n \<in> set allConversions \<Longrightarrow> \<not> passes_validation n (Finite (- 1000000))"
  using guards_at_negative_million
  by (auto simp add: allConversions_def passes_registered)

section \<open>Names that are not registered\<close>

text \<open>
  Claim C6. For a name that is not in the registry and a value that passes the
  validation of that name, \<^verbatim>\<open>convert\<close> fails with the message
  ``Invalid conversion type: '' followed by the name. So does ``InvalidType'' on \<open>100\<close>,
  and so does ``MetersToYards'', a distance name by its substring, on every value that
  is not negative.
\<close>

theorem unknown_conversion:
  "(\<forall>n v. conversionFunctions UnitConverter_new n = None \<and> passes_validation n v \<longrightarrow>
      convert UnitConverter_new n v = Inl (invalid_argument (''Invalid conversion type: '' @ n))) \<and>
   convert UnitConverter_new ''InvalidType'' (Finite 100) =
     Inl (invalid_argument ''Invalid conversion type: InvalidType'') \<and>
   (\<forall>v. Finite 0 \<le> v \<longrightarrow>
      convert UnitConverter_new ''MetersToYards'' v =
        Inl (invalid_argument ''Invalid conversion type: MetersToYards''))"
proof -
  have g: "convert UnitConverter_new n v = Inl (invalid_argument (''Invalid conversion type: '' @ n))"
    if "conversionFunctions UnitConverter_new n = None" and "passes_validation n v" for n v
    using that by (simp add: convert_passes UnknownConversion_def)
  have i: "conversionFunctions UnitConverter_new ''InvalidType'' = None"
    by (simp add: registry_lookup)
  have pi: "passes_validation ''InvalidType'' (Finite 100)"
    by (simp add: passes_validation_def category_defs)
  have y: "conversionFunctions UnitConverter_new ''MetersToYards'' = None"
    by (simp add: registry_lookup)
  have py: "passes_validation ''MetersToYards'' v" if "Finite 0 \<le> v" for v
    using that by (simp add: passes_validation_def category_defs not_less_if_le)
  from g [OF i pi] g [OF y py] g show ?thesis by simp
qed

theorem unknown_conversion_witness:
  "conversionFunctions UnitConverter_new ''LitersToCups'' = None \<and>
   passes_validation ''LitersToCups'' (Finite 1) \<and> volume_name ''LitersToCups'' \<and>
   convert UnitConverter_new ''LitersToCups'' (Finite 1) =
     Inl (invalid_argument ''Invalid conversion type: LitersToCups'') \<and>
   convert UnitConverter_new ''MetersToYards'' (Finite 10) =
     Inl (invalid_argument ''Invalid conversion type: MetersToYards'')"
proof -
  have a: "conversionFunctions UnitConverter_new ''LitersToCups'' = None"
    by (simp add: registry_lookup)
  have b: "passes_validation ''LitersToCups'' (Finite 1)"
    by (simp add: passes_validation_def category_defs)
  have c: "volume_name ''LitersToCups''"
    by (simp add: volume_name_def)
  have d: "Finite 0 \<le> Finite 10" by simp
  from unknown_conversion a b
  have e: "convert UnitConverter_new ''LitersToCups'' (Finite 1) =
     Inl (invalid_argument (''Invalid conversion type: '' @ ''LitersToCups''))"
    by blast
  from unknown_conversion d
  have f: "convert UnitConverter_new ''MetersToYards'' (Finite 10) =
     Inl (invalid_argument ''Invalid conversion type: MetersToYards'')"
    by blast
  from a b c e f show ?thesis by simp
qed

section \<open>Round trips\<close>

text \<open>
  The rounding errors of a conversion followed by its inverse, for each shape of formula:
  a factor between \<open>0.03\<close> and \<open>4\<close>, the offset \<^verbatim>\<open>273.15\<close>, and the Fahrenheit formulas.
  Every intermediate result stays below \<open>2\<^sup>2\<^sup>5\<close>, where one rounding moves a value by at
  most \<open>2\<^sup>-\<^sup>2\<^sup>8\<close>.
\<close>

lemma abs_mult_bound:
  fixes x c :: real
  assumes "\<bar>x\<bar> \<le> A" and "0 \<le> c" and "c \<le> C"
  shows "\<bar>x * c\<bar> \<le> A * C"
proof -
  have "\<bar>x * c\<bar> = \<bar>x\<bar> * c" using assms(2) by (simp add: abs_mult)
  also have "\<dots> \<le> A * C" using assms by (intro mult_mono) auto
  finally show ?thesis .
qed

lemma abs_div_bound:
  fixes x c :: real
  assumes "\<bar>x\<bar> \<le> A" and "0 < m" and "m \<le> c"
  shows "\<bar>x / c\<bar> \<le> A / m"
proof -
  have "\<bar>x / c\<bar> = \<bar>x\<bar> / c" using assms(2,3) by simp
  also have "\<dots> \<le> A / m" using assms by (intro frac_le) auto
  finally show ?thesis .
qed









lemma convert_Inr:
  assumes "convert c n v = Inr r" and "conversionFunctions c n = Some f"
  shows "r = f (clamp v)"
  using assms by (simp add: convert_cases split: if_splits)

lemma lit_factor:
  assumes "3 / 100 + 1 / 268435456 \<le> k" and "k + 1 / 268435456 \<le> 4"
  shows "\<exists>c. lit k = Finite c \<and> 3 / 100 \<le> c \<and> c \<le> 4"
proof -
  have "\<bar>k\<bar> \<le> 33554432" using assms by linarith
  from lit_ex [OF this] obtain c where c: "lit k = Finite c" "\<bar>c - k\<bar> \<le> 1 / 268435456"
    by blast
  from c(2) assms have "3 / 100 \<le> c" and "c \<le> 4" by linarith+
  with c(1) show ?thesis by blast
qed





lemma lookup_CelsiusToFahrenheit:
  "conversionFunctions UnitConverter_new ''CelsiusToFahrenheit'' = Some (\<lambda>c. c * Finite 9 / Finite 5 + Finite 32)"
  by (simp add: registry_lookup)

lemma lookup_FahrenheitToCelsius:
  "conversionFunctions UnitConverter_new ''FahrenheitToCelsius'' = Some (\<lambda>f. (f - Finite 32) * Finite 5 / Finite 9)"
  by (simp add: registry_lookup)

lemma lookup_CelsiusToKelvin:
  "conversionFunctions UnitConverter_new ''CelsiusToKelvin'' = Some (\<lambda>c. c + lit 273.15)"
  by (simp add: registry_lookup)

lemma lookup_KelvinToCelsius:
  "conversionFunctions UnitConverter_new ''KelvinToCelsius'' = Some (\<lambda>k. k - lit 273.15)"
  by (simp add: registry_lookup)

lemma lookup_KilometersToMiles:
  "conversionFunctions UnitConverter_new ''KilometersToMiles'' = Some (\<lambda>km. km * lit 0.621371)"
  by (simp add: registry_lookup)

lemma lookup_MilesToKilometers:
  "conversionFunctions UnitConverter_new ''MilesToKilometers'' = Some (\<lambda>miles. miles / lit 0.621371)"
  by (simp add: registry_lookup)

lemma lookup_MetersToFeet:
  "conversionFunctions UnitConverter_new ''MetersToFeet'' = Some (\<lambda>m. m * lit 3.28084)"
  by (simp add: registry_lookup)

lemma lookup_FeetToMeters:
  "conversionFunctions UnitConverter_new ''FeetToMeters'' = Some (\<lambda>ft. ft / lit 3.28084)"
  by (simp add: registry_lookup)

lemma lookup_KilogramsToPounds:
  "conversionFunctions UnitConverter_new ''KilogramsToPounds'' = Some (\<lambda>kg. kg * lit 2.20462)"
  by (simp add: registry_lookup)

lemma lookup_PoundsToKilograms:
  "conversionFunctions UnitConverter_new ''PoundsToKilograms'' = Some (\<lambda>lb. lb / lit 2.20462)"
  by (simp add: registry_lookup)

lemma lookup_GramsToOunces:
  "conversionFunctions UnitConverter_new ''GramsToOunces'' = Some (\<lambda>g. g * lit 0.035274)"
  by (simp add: registry_lookup)

lemma lookup_OuncesToGrams:
  "conversionFunctions UnitConverter_new ''OuncesToGrams'' = Some (\<lambda>oz. oz / lit 0.035274)"
  by (simp add: registry_lookup)

lemma lookup_LitersToGallons:
  "conversionFunctions UnitConverter_new ''LitersToGallons'' = Some (\<lambda>l. l * lit 0.264172)"
  by (simp add: registry_lookup)

lemma lookup_GallonsToLiters:
  "conversionFunctions UnitConverter_new ''GallonsToLiters'' = Some (\<lambda>gal. gal / lit 0.264172)"
  by (simp add: registry_lookup)

lemma lookup_MillilitersToFluidOunces:
  "conversionFunctions UnitConverter_new ''MillilitersToFluidOunces'' = Some (\<lambda>ml. ml * lit 0.033814)"
  by (simp add: registry_lookup)

lemma lookup_FluidOuncesToMilliliters:
  "conversionFunctions UnitConverter_new ''FluidOuncesToMilliliters'' = Some (\<lambda>fl_oz. fl_oz / lit 0.033814)"
  by (simp add: registry_lookup)





text \<open>
  The round trip of one degree is not the identity, and with a clamp in between the
  result is far from the original: one million degrees Celsius come back as about
  555538.
\<close>

lemma round_trip_inexact: "Finite (1 - 7 / 2 ^ 52) \<noteq> Finite 1"
  by simp

lemma round_trip_clamped:
  "convert UnitConverter_new ''CelsiusToFahrenheit'' (Finite 1000000) = Inr (Finite 1800032) \<and>
   (\<exists>r. convert UnitConverter_new ''FahrenheitToCelsius'' (Finite 1800032) = Inr (Finite r) \<and>
      r < 555538)"
proof -
  from lit_273_15 obtain c where c: "lit 273.15 = Finite c" "273 < c" by blast
  have f: "convert UnitConverter_new ''CelsiusToFahrenheit'' (Finite 1000000) =
      Inr (Finite 1800032)"
    unfolding convert_CelsiusToFahrenheit using fahrenheit_guard_positive(2)
    by (simp add: clamp_Finite)
  have "\<bar>8999840 / 9 :: real\<bar> \<le> 33554432" by simp
  from round64_ex [OF this] obtain p where p: "round64 (8999840 / 9) = Finite p"
    "\<bar>p - 8999840 / 9\<bar> \<le> 1 / 268435456"
    by blast
  from p(2) have "0 < p" by linarith
  then have g: "\<not> (Finite 1800032 - Finite 32) * Finite 5 / Finite 9 < - Finite c"
    using c(2) by (simp add: p(1))
  have "\<bar>4999840 / 9 :: real\<bar> \<le> 33554432" by simp
  from round64_ex [OF this] obtain q where q: "round64 (4999840 / 9) = Finite q"
    "\<bar>q - 4999840 / 9\<bar> \<le> 1 / 268435456"
    by blast
  from q(2) have "q < 555538" by linarith
  moreover have "convert UnitConverter_new ''FahrenheitToCelsius'' (Finite 1800032) = Inr (Finite q)"
    unfolding convert_FahrenheitToCelsius c(1) using g by (simp add: clamp_Finite q(1))
  ultimately show ?thesis using f by blast
qed

section \<open>Not-a-number\<close>

text \<open>
  Claim C8. The claim has \<^verbatim>\<open>convert\<close> return a finite number that is not a NaN on every
  value that passes the validation of a registered name. A NaN passes every guard, each
  comparison with it being false, is left alone by the clamp for the same reason, and
  comes back from the formula as a NaN.
\<close>

theorem nan_input_returns_nan:
  "passes_validation ''CelsiusToFahrenheit'' NaN \<and>
   convert UnitConverter_new ''CelsiusToFahrenheit'' NaN = Inr NaN \<and> isnan NaN"
  by (simp add: convert_CelsiusToFahrenheit passes_CelsiusToFahrenheit clamp_def)

text \<open>
  On every other value the result of a registered conversion is finite and bounded.
\<close>

lemma clamp_not_nan: "\<not> isnan v \<Longrightarrow> \<exists>x. clamp v = Finite x \<and> \<bar>x\<bar> \<le> 1000000"
  by (cases v) (auto simp add: clamp_def)

lemma bounded_mul:
  assumes "3 / 100 + 1 / 268435456 \<le> k" and "k + 1 / 268435456 \<le> 4"
    and "\<bar>x\<bar> \<le> 1000000"
  shows "\<exists>q. Finite x * lit k = Finite q \<and> \<bar>q\<bar> \<le> 33554433"
proof -
  from lit_factor [OF assms(1,2)] obtain c where c: "lit k = Finite c" "3 / 100 \<le> c" "c \<le> 4"
    by blast
  have "0 \<le> c" using c(2) by simp
  with assms(3) have "\<bar>x * c\<bar> \<le> 1000000 * 4" using c(3) by (rule abs_mult_bound)
  then have b: "\<bar>x * c\<bar> \<le> 33554432" by simp
  from round64_ex [OF b] obtain q where q: "round64 (x * c) = Finite q"
    "\<bar>q - x * c\<bar> \<le> 1 / 268435456"
    by blast
  from q(2) b have "\<bar>q\<bar> \<le> 33554433" by linarith
  then show ?thesis unfolding c(1) by (simp add: q(1))
qed

lemma bounded_div:
  assumes "3 / 100 + 1 / 268435456 \<le> k" and "k + 1 / 268435456 \<le> 4"
    and "\<bar>x\<bar> \<le> 1000000"
  shows "\<exists>q. Finite x / lit k = Finite q \<and> \<bar>q\<bar> \<le> 33554433"
proof -
  from lit_factor [OF assms(1,2)] obtain c where c: "lit k = Finite c" "3 / 100 \<le> c" "c \<le> 4"
    by blast
  have c0: "c \<noteq> 0" using c(2) by simp
  have "\<bar>x / c\<bar> \<le> 1000000 / (3 / 100)" using assms(3) _ c(2) by (rule abs_div_bound) simp
  also have "\<dots> \<le> 33554432" by simp
  finally have b: "\<bar>x / c\<bar> \<le> 33554432" .
  from round64_ex [OF b] obtain q where q: "round64 (x / c) = Finite q"
    "\<bar>q - x / c\<bar> \<le> 1 / 268435456"
    by blast
  from q(2) b have "\<bar>q\<bar> \<le> 33554433" by linarith
  then show ?thesis unfolding c(1) using c0 by (simp add: q(1))
qed

lemma bounded_kelvin:
  assumes "\<bar>x\<bar> \<le> 1000000"
  shows "\<exists>q. Finite x + lit 273.15 = Finite q \<and> \<bar>q\<bar> \<le> 33554433"
    and "\<exists>q. Finite x - lit 273.15 = Finite q \<and> \<bar>q\<bar> \<le> 33554433"
proof -
  from lit_273_15 obtain c where c: "lit 273.15 = Finite c" "273 < c" "c < 274" by blast
  have "\<bar>x + c\<bar> \<le> 33554432" using assms c(2,3) by linarith
  from round64_ex [OF this] obtain q where q: "round64 (x + c) = Finite q"
    "\<bar>q - (x + c)\<bar> \<le> 1 / 268435456"
    by blast
  from q(2) assms c(2,3) have "\<bar>q\<bar> \<le> 33554433" by linarith
  then show "\<exists>q. Finite x + lit 273.15 = Finite q \<and> \<bar>q\<bar> \<le> 33554433"
    unfolding c(1) by (simp add: q(1))
  have "\<bar>x - c\<bar> \<le> 33554432" using assms c(2,3) by linarith
  from round64_ex [OF this] obtain p where p: "round64 (x - c) = Finite p"
    "\<bar>p - (x - c)\<bar> \<le> 1 / 268435456"
    by blast
  from p(2) assms c(2,3) have "\<bar>p\<bar> \<le> 33554433" by linarith
  then show "\<exists>q. Finite x - lit 273.15 = Finite q \<and> \<bar>q\<bar> \<le> 33554433"
    unfolding c(1) by (simp add: p(1))
qed

lemma bounded_fahrenheit:
  assumes "\<bar>x\<bar> \<le> 1000000"
  shows "\<exists>q. Finite x * Finite 9 / Finite 5 + Finite 32 = Finite q \<and> \<bar>q\<bar> \<le> 33554433"
    and "\<exists>q. (Finite x - Finite 32) * Finite 5 / Finite 9 = Finite q \<and> \<bar>q\<bar> \<le> 33554433"
proof -
  have "\<bar>x * 9\<bar> \<le> 33554432" using assms by linarith
  from round64_ex [OF this] obtain a where a: "round64 (x * 9) = Finite a"
    "\<bar>a - x * 9\<bar> \<le> 1 / 268435456"
    by blast
  have "\<bar>a / 5\<bar> \<le> 33554432" using assms a(2) by linarith
  from round64_ex [OF this] obtain b where b: "round64 (a / 5) = Finite b"
    "\<bar>b - a / 5\<bar> \<le> 1 / 268435456"
    by blast
  have "\<bar>b + 32\<bar> \<le> 33554432" using assms a(2) b(2) by linarith
  from round64_ex [OF this] obtain y where y: "round64 (b + 32) = Finite y"
    "\<bar>y - (b + 32)\<bar> \<le> 1 / 268435456"
    by blast
  from assms a(2) b(2) y(2) have "\<bar>y\<bar> \<le> 33554433" by linarith
  then show "\<exists>q. Finite x * Finite 9 / Finite 5 + Finite 32 = Finite q \<and> \<bar>q\<bar> \<le> 33554433"
    by (simp add: a(1) b(1) y(1))
  have "\<bar>x - 32\<bar> \<le> 33554432" using assms by linarith
  from round64_ex [OF this] obtain p where p: "round64 (x - 32) = Finite p"
    "\<bar>p - (x - 32)\<bar> \<le> 1 / 268435456"
    by blast
  have "\<bar>p * 5\<bar> \<le> 33554432" using assms p(2) by linarith
  from round64_ex [OF this] obtain q where q: "round64 (p * 5) = Finite q"
    "\<bar>q - p * 5\<bar> \<le> 1 / 268435456"
    by blast
  have "\<bar>q / 9\<bar> \<le> 33554432" using assms p(2) q(2) by linarith
  from round64_ex [OF this] obtain z where z: "round64 (q / 9) = Finite z"
    "\<bar>z - q / 9\<bar> \<le> 1 / 268435456"
    by blast
  from assms p(2) q(2) z(2) have "\<bar>z\<bar> \<le> 33554433" by linarith
  then show "\<exists>q. (Finite x - Finite 32) * Finite 5 / Finite 9 = Finite q \<and> \<bar>q\<bar> \<le> 33554433"
    by (simp add: p(1) q(1) z(1))
qed

lemma convert_result_bounded:
  assumes "n \<in> set allConversions" and "convert UnitConverter_new n v = Inr r"
    and "\<not> isnan v"
  shows "\<exists>q. r = Finite q \<and> \<bar>q\<bar> \<le> 33554433"
proof -
  from clamp_not_nan [OF assms(3)] obtain x where x: "clamp v = Finite x" "\<bar>x\<bar> \<le> 1000000"
    by blast
  from assms(1) have
    "n = ''CelsiusToFahrenheit'' \<or>
     n = ''FahrenheitToCelsius'' \<or>
     n = ''CelsiusToKelvin'' \<or>
     n = ''KelvinToCelsius'' \<or>
     n = ''KilometersToMiles'' \<or>
     n = ''MilesToKilometers'' \<or>
     n = ''MetersToFeet'' \<or>
     n = ''FeetToMeters'' \<or>
     n = ''KilogramsToPounds'' \<or>
     n = ''PoundsToKilograms'' \<or>
     n = ''GramsToOunces'' \<or>
     n = ''OuncesToGrams'' \<or>
     n = ''LitersToGallons'' \<or>
     n = ''GallonsToLiters'' \<or>
     n = ''MillilitersToFluidOunces'' \<or>
     n = ''FluidOuncesToMilliliters''"
    by (simp add: allConversions_def)
  then show ?thesis
  proof (elim disjE)
    assume n: "n = ''CelsiusToFahrenheit''"
    show ?thesis
      using convert_Inr [OF assms(2) [unfolded n] lookup_CelsiusToFahrenheit] bounded_fahrenheit(1) [OF x(2)]
      by (simp only: x(1))
  next
    assume n: "n = ''FahrenheitToCelsius''"
    show ?thesis
      using convert_Inr [OF assms(2) [unfolded n] lookup_FahrenheitToCelsius] bounded_fahrenheit(2) [OF x(2)]
      by (simp only: x(1))
  next
    assume n: "n = ''CelsiusToKelvin''"
    show ?thesis
      using convert_Inr [OF assms(2) [unfolded n] lookup_CelsiusToKelvin] bounded_kelvin(1) [OF x(2)]
      by (simp only: x(1))
  next
    assume n: "n = ''KelvinToCelsius''"
    show ?thesis
      using convert_Inr [OF assms(2) [unfolded n] lookup_KelvinToCelsius] bounded_kelvin(2) [OF x(2)]
      by (simp only: x(1))
  next
    assume n: "n = ''KilometersToMiles''"
    have "\<exists>q. Finite x * lit 0.621371 = Finite q \<and> \<bar>q\<bar> \<le> 33554433"
      by (rule bounded_mul [of "0.621371", OF _ _ x(2)]) simp_all
    then show ?thesis
      using convert_Inr [OF assms(2) [unfolded n] lookup_KilometersToMiles] by (simp only: x(1))
  next
    assume n: "n = ''MilesToKilometers''"
    have "\<exists>q. Finite x / lit 0.621371 = Finite q \<and> \<bar>q\<bar> \<le> 33554433"
      by (rule bounded_div [of "0.621371", OF _ _ x(2)]) simp_all
    then show ?thesis
      using convert_Inr [OF assms(2) [unfolded n] lookup_MilesToKilometers] by (simp only: x(1))
  next
    assume n: "n = ''MetersToFeet''"
    have "\<exists>q. Finite x * lit 3.28084 = Finite q \<and> \<bar>q\<bar> \<le> 33554433"
      by (rule bounded_mul [of "3.28084", OF _ _ x(2)]) simp_all
    then show ?thesis
      using convert_Inr [OF assms(2) [unfolded n] lookup_MetersToFeet] by (simp only: x(1))
  next
    assume n: "n = ''FeetToMeters''"
    have "\<exists>q. Finite x / lit 3.28084 = Finite q \<and> \<bar>q\<bar> \<le> 33554433"
      by (rule bounded_div [of "3.28084", OF _ _ x(2)]) simp_all
    then show ?thesis
      using convert_Inr [OF assms(2) [unfolded n] lookup_FeetToMeters] by (simp only: x(1))
  next
    assume n: "n = ''KilogramsToPounds''"
    have "\<exists>q. Finite x * lit 2.20462 = Finite q \<and> \<bar>q\<bar> \<le> 33554433"
      by (rule bounded_mul [of "2.20462", OF _ _ x(2)]) simp_all
    then show ?thesis
      using convert_Inr [OF assms(2) [unfolded n] lookup_KilogramsToPounds] by (simp only: x(1))
  next
    assume n: "n = ''PoundsToKilograms''"
    have "\<exists>q. Finite x / lit 2.20462 = Finite q \<and> \<bar>q\<bar> \<le> 33554433"
      by (rule bounded_div [of "2.20462", OF _ _ x(2)]) simp_all
    then show ?thesis
      using convert_Inr [OF assms(2) [unfolded n] lookup_PoundsToKilograms] by (simp only: x(1))
  next
    assume n: "n = ''GramsToOunces''"
    have "\<exists>q. Finite x * lit 0.035274 = Finite q \<and> \<bar>q\<bar> \<le> 33554433"
      by (rule bounded_mul [of "0.035274", OF _ _ x(2)]) simp_all
    then show ?thesis
      using convert_Inr [OF assms(2) [unfolded n] lookup_GramsToOunces] by (simp only: x(1))
  next
    assume n: "n = ''OuncesToGrams''"
    have "\<exists>q. Finite x / lit 0.035274 = Finite q \<and> \<bar>q\<bar> \<le> 33554433"
      by (rule bounded_div [of "0.035274", OF _ _ x(2)]) simp_all
    then show ?thesis
      using convert_Inr [OF assms(2) [unfolded n] lookup_OuncesToGrams] by (simp only: x(1))
  next
    assume n: "n = ''LitersToGallons''"
    have "\<exists>q. Finite x * lit 0.264172 = Finite q \<and> \<bar>q\<bar> \<le> 33554433"
      by (rule bounded_mul [of "0.264172", OF _ _ x(2)]) simp_all
    then show ?thesis
      using convert_Inr [OF assms(2) [unfolded n] lookup_LitersToGallons] by (simp only: x(1))
  next
    assume n: "n = ''GallonsToLiters''"
    have "\<exists>q. Finite x / lit 0.264172 = Finite q \<and> \<bar>q\<bar> \<le> 33554433"
      by (rule bounded_div [of "0.264172", OF _ _ x(2)]) simp_all
    then show ?thesis
      using convert_Inr [OF assms(2) [unfolded n] lookup_GallonsToLiters] by (simp only: x(1))
  next
    assume n: "n = ''MillilitersToFluidOunces''"
    have "\<exists>q. Finite x * lit 0.033814 = Finite q \<and> \<bar>q\<bar> \<le> 33554433"
      by (rule bounded_mul [of "0.033814", OF _ _ x(2)]) simp_all
    then show ?thesis
      using convert_Inr [OF assms(2) [unfolded n] lookup_MillilitersToFluidOunces] by (simp only: x(1))
  next
    assume n: "n = ''FluidOuncesToMilliliters''"
    have "\<exists>q. Finite x / lit 0.033814 = Finite q \<and> \<bar>q\<bar> \<le> 33554433"
      by (rule bounded_div [of "0.033814", OF _ _ x(2)]) simp_all
    then show ?thesis
      using convert_Inr [OF assms(2) [unfolded n] lookup_FluidOuncesToMilliliters] by (simp only: x(1))
  qed
qed

end
